theory Spec2Isabelle
  imports Main "HOL-Library.Word"
begin

section \<open>Data model\<close>

text \<open>
  The test suite's message builder (\<^verbatim>\<open>pkg/testsuite/utils.go\<close>) fabricates tag-only and
  value-transfer messages against the wallets of a test environment. The embedding follows
  the Go source function by function. Amounts are \<^verbatim>\<open>uint64\<close>, so the running sum of the
  input selection wraps around; byte slices are lists of bytes, a nullable slice or pointer
  is an \<open>option\<close>.
\<close>

type_synonym bytes = "8 word list"
type_synonym uint64 = "64 word"

text \<open>An address is identified with its \<^verbatim>\<open>String()\<close> form, the only way the source compares
  addresses.\<close>

type_synonym address = string

text \<open>\<^verbatim>\<open>hornet.MessageID\<close> is a byte slice and may be nil; \<^verbatim>\<open>hornet.MessageIDs\<close> is a slice
  of them and may be nil itself.\<close>

type_synonym MessageID = "bytes option"
type_synonym MessageIDs = "MessageID list option"

text \<open>\<^verbatim>\<open>iotago.OutputType\<close> is a byte.\<close>

definition OutputSigLockedSingleOutput :: "8 word" where
  "OutputSigLockedSingleOutput = 0"

definition OutputSigLockedDustAllowanceOutput :: "8 word" where
  "OutputSigLockedDustAllowanceOutput = 1"

text \<open>\<^verbatim>\<open>utxo.Output\<close>: an unspent output with its identifier, the message it came from, its
  type, its owner and its amount.\<close>

record Output =
  OutputID :: bytes
  OutputMessageID :: bytes
  OutputType :: "8 word"
  OutputAddress :: address
  OutputAmount :: uint64

text \<open>Modelled from the spec: \<^verbatim>\<open>utxo.CreateOutput\<close> is not part of the source file; an
  UnspentOutput is an immutable record of identifier, origin message, type tag, owning
  address and amount, and the constructor fills these fields.\<close>

definition CreateOutput :: "bytes \<Rightarrow> bytes \<Rightarrow> 8 word \<Rightarrow> address \<Rightarrow> uint64 \<Rightarrow> Output" where
  "CreateOutput oid mid ty addr amt =
     \<lparr>OutputID = oid, OutputMessageID = mid, OutputType = ty, OutputAddress = addr,
      OutputAmount = amt\<rparr>"

text \<open>The zero value \<^verbatim>\<open>iotago.UTXOInputID{}\<close> (34 bytes) and the null message identifier
  (32 bytes).\<close>

definition zeroUTXOInputID :: bytes where
  "zeroUTXOInputID = replicate 34 0"

definition GetNullMessageID :: bytes where
  "GetNullMessageID = replicate 32 0"

text \<open>The requests handed to the transaction builder of the codec.\<close>

record ToBeSignedUTXOInput =
  InputAddress :: address
  Input :: bytes

datatype SigLockedOutput =
    SigLockedSingleOutput address uint64
  | SigLockedDustAllowanceOutput address uint64

record Indexation =
  Index :: string
  Data :: "bytes option"

record TransactionBuilder =
  tbInputs :: "ToBeSignedUTXOInput list"
  tbOutputs :: "SigLockedOutput list"
  tbPayload :: "Indexation option"

definition NewTransactionBuilder :: TransactionBuilder where
  "NewTransactionBuilder = \<lparr>tbInputs = [], tbOutputs = [], tbPayload = None\<rparr>"

definition AddInput :: "TransactionBuilder \<Rightarrow> ToBeSignedUTXOInput \<Rightarrow> TransactionBuilder" where
  "AddInput tb i = tb\<lparr>tbInputs := tbInputs tb @ [i]\<rparr>"

definition AddOutput :: "TransactionBuilder \<Rightarrow> SigLockedOutput \<Rightarrow> TransactionBuilder" where
  "AddOutput tb out = tb\<lparr>tbOutputs := tbOutputs tb @ [out]\<rparr>"

definition AddIndexationPayload :: "TransactionBuilder \<Rightarrow> Indexation \<Rightarrow> TransactionBuilder" where
  "AddIndexationPayload tb ix = tb\<lparr>tbPayload := Some ix\<rparr>"

record AddressKeys =
  KeysAddress :: address
  Keys :: bytes

text \<open>A signed transaction, a message and the validated message of the storage layer.\<close>

record Transaction =
  EssenceInputs :: "bytes list"
  EssenceOutputs :: "SigLockedOutput list"
  EssencePayload :: "Indexation option"
  UnlockBlocks :: "bytes list"

datatype Payload = TransactionPayload Transaction | IndexationPayload Indexation

record IotaMessage =
  MsgParents :: "MessageID list"
  MsgPayload :: Payload
  MsgNonce :: uint64

record StorageMessage =
  GetMessageID :: bytes
  GetMessage :: IotaMessage

text \<open>\<^verbatim>\<open>GetTransaction\<close> is nil unless the payload is a transaction.\<close>

definition GetTransaction :: "StorageMessage \<Rightarrow> Transaction option" where
  "GetTransaction sm =
     (case MsgPayload (GetMessage sm) of
        TransactionPayload tx \<Rightarrow> Some tx
      | IndexationPayload _ \<Rightarrow> None)"

datatype DeSerializationMode = DeSeriModeNoValidation | DeSeriModePerformValidation

text \<open>Modelled from the spec: \<^verbatim>\<open>utils.HDWallet\<close> is not part of the source file; a Wallet owns an
  address, a keypair and the sequence of its unspent outputs, read by \<^verbatim>\<open>Address()\<close>,
  \<^verbatim>\<open>KeyPair()\<close> and \<^verbatim>\<open>Outputs()\<close>.\<close>

record HDWallet =
  WalletAddress :: address
  WalletKeyPair :: bytes
  WalletOutputs :: "Output list"

text \<open>
  The collaborators the builder calls and that are not part of the source file: the codec
  (\<^verbatim>\<open>builder.Build(signer)\<close>, the message builder's \<^verbatim>\<open>Build()\<close>), the proof-of-work handler,
  the validating constructor \<^verbatim>\<open>storage.NewMessage\<close>, \<^verbatim>\<open>utxo.NewOutput\<close>, the message store
  of the test environment and the two booking operations of a wallet. They are parameters
  of the model; a call that returns an error in Go returns \<open>None\<close>. Go enters a method
  also on a nil receiver, so what a booking call on a nil wallet does is the method's
  affair as well: \<open>BookSpentsOnNil\<close> and \<open>BookOutputOnNil\<close> say, for the argument of
  the call, whether the method returns (it has then changed no wallet) or ends in the
  runtime's nil-pointer panic.
\<close>

record Collaborators =
  TxBuild :: "TransactionBuilder \<Rightarrow> AddressKeys \<Rightarrow> Transaction option"
  MsgBuild :: "MessageID list \<Rightarrow> Payload \<Rightarrow> IotaMessage option"
  DoPoW :: "IotaMessage \<Rightarrow> nat \<Rightarrow> IotaMessage option"
  NewMessage :: "IotaMessage \<Rightarrow> DeSerializationMode \<Rightarrow> StorageMessage option"
  NewOutput :: "bytes \<Rightarrow> Transaction \<Rightarrow> 16 word \<Rightarrow> Output option"
  StoreMessage :: "StorageMessage \<Rightarrow> StorageMessage list \<Rightarrow> StorageMessage \<times> StorageMessage list"
  BookSpents :: "HDWallet \<Rightarrow> Output list \<Rightarrow> HDWallet"
  BookOutput :: "HDWallet \<Rightarrow> Output option \<Rightarrow> HDWallet"
  BookSpentsOnNil :: "Output list \<Rightarrow> bool"
  BookOutputOnNil :: "Output option \<Rightarrow> bool"

text \<open>The builder and the fabricated message. Wallets are held by reference, so the
  wallets live in a store indexed by references and the builder holds nullable references.\<close>

record MessageBuilder =
  indexation :: string
  parents :: MessageIDs
  fromWallet :: "nat option"
  toWallet :: "nat option"
  amount :: uint64
  fakeInputs :: bool
  dustUnlock :: bool
  outputToUse :: "Output option"

record Message =
  builder :: MessageBuilder
  message :: StorageMessage
  consumedOutputs :: "Output list"
  sentOutput :: "Output option"
  remainderOutput :: "Output option"
  booked :: bool
  storedMessageID :: MessageID

text \<open>The mutable state around the builder: the wallets and the message store.\<close>

record World =
  wallets :: "nat \<Rightarrow> HDWallet"
  storage :: "StorageMessage list"

text \<open>
  Every \<^verbatim>\<open>require\<close> of the source aborts the running test; each one is a failure of its
  own here, named after what it checks. Reading the address of a nil wallet, or the
  transaction of a message that has none, is the runtime's nil-pointer panic.
\<close>

datatype Failure =
    AmountNotPositive
  | NoOutputsToConsume
  | IndexationEmpty
  | ParentsNil
  | ParentNil
  | TransactionBuildError
  | MessageBuildError
  | PoWError
  | MessageValidationError
  | NewOutputError
  | AlreadyStored
  | AlreadyBooked
  | NilPointerDereference

text \<open>The taxonomy of failures of the specification, and the class of each failure.\<close>

datatype ErrorCategory =
    PreconditionViolation
  | InsufficientFunds
  | CodecSigningFailure
  | ProofOfWorkFailure
  | LifecycleReuseViolation
  | RuntimePanic

fun category :: "Failure \<Rightarrow> ErrorCategory" where
  "category AmountNotPositive = PreconditionViolation"
| "category IndexationEmpty = PreconditionViolation"
| "category ParentsNil = PreconditionViolation"
| "category ParentNil = PreconditionViolation"
| "category NoOutputsToConsume = InsufficientFunds"
| "category TransactionBuildError = CodecSigningFailure"
| "category MessageBuildError = CodecSigningFailure"
| "category MessageValidationError = CodecSigningFailure"
| "category NewOutputError = CodecSigningFailure"
| "category PoWError = ProofOfWorkFailure"
| "category AlreadyStored = LifecycleReuseViolation"
| "category AlreadyBooked = LifecycleReuseViolation"
| "category NilPointerDereference = RuntimePanic"

section \<open>The fluent setters\<close>

definition NewMessageBuilder :: "string \<Rightarrow> MessageBuilder" where
  "NewMessageBuilder ix =
     \<lparr>indexation = ix, parents = None, fromWallet = None, toWallet = None, amount = 0,
      fakeInputs = False, dustUnlock = False, outputToUse = None\<rparr>"

definition Parents :: "MessageIDs \<Rightarrow> MessageBuilder \<Rightarrow> MessageBuilder" where
  "Parents ps b = b\<lparr>parents := ps\<rparr>"

definition FromWallet :: "nat option \<Rightarrow> MessageBuilder \<Rightarrow> MessageBuilder" where
  "FromWallet wl b = b\<lparr>fromWallet := wl\<rparr>"

definition ToWallet :: "nat option \<Rightarrow> MessageBuilder \<Rightarrow> MessageBuilder" where
  "ToWallet wl b = b\<lparr>toWallet := wl\<rparr>"

definition Amount :: "uint64 \<Rightarrow> MessageBuilder \<Rightarrow> MessageBuilder" where
  "Amount a b = b\<lparr>amount := a\<rparr>"

definition DustAllowance :: "MessageBuilder \<Rightarrow> MessageBuilder" where
  "DustAllowance b = b\<lparr>dustUnlock := True\<rparr>"

definition FakeInputs :: "MessageBuilder \<Rightarrow> MessageBuilder" where
  "FakeInputs b = b\<lparr>fakeInputs := True\<rparr>"

definition UsingOutput :: "Output option \<Rightarrow> MessageBuilder \<Rightarrow> MessageBuilder" where
  "UsingOutput out b = b\<lparr>outputToUse := out\<rparr>"

section \<open>BuildIndexation\<close>

text \<open>The loop over the parents: every entry must be non-nil.\<close>

fun checkParents :: "MessageID list \<Rightarrow> MessageID list \<Rightarrow> Failure + MessageID list" where
  "checkParents [] acc = Inr acc"
| "checkParents (parent # ps) acc =
     (case parent of
        None \<Rightarrow> Inl ParentNil
      | Some p \<Rightarrow> checkParents ps (acc @ [Some p]))"

definition BuildIndexation ::
  "Collaborators \<Rightarrow> MessageBuilder \<Rightarrow> World \<Rightarrow> (Failure + Message) \<times> World" where
  "BuildIndexation te b w =
     (if indexation b = [] then (Inl IndexationEmpty, w)
      else case parents b of
        None \<Rightarrow> (Inl ParentsNil, w)
      | Some bps \<Rightarrow>
      (case checkParents bps [] of
        Inl e \<Rightarrow> (Inl e, w)
      | Inr ps \<Rightarrow>
      (case MsgBuild te ps (IndexationPayload \<lparr>Index = indexation b, Data = None\<rparr>) of
        None \<Rightarrow> (Inl MessageBuildError, w)
      | Some msg \<Rightarrow>
      (case DoPoW te msg 1 of
        None \<Rightarrow> (Inl PoWError, w)
      | Some msg' \<Rightarrow>
      (case NewMessage te msg' DeSeriModePerformValidation of
        None \<Rightarrow> (Inl MessageValidationError, w)
      | Some vmsg \<Rightarrow>
          (Inr \<lparr>builder = b, message = vmsg, consumedOutputs = [], sentOutput = None,
                remainderOutput = None, booked = False, storedMessageID = None\<rparr>, w))))))"

section \<open>Build\<close>

text \<open>The candidate outputs: the given output alone, else a fake output of the target
  amount, else the outputs of the source wallet.\<close>

definition outputsThatCanBeConsumed :: "MessageBuilder \<Rightarrow> HDWallet \<Rightarrow> Output list" where
  "outputsThatCanBeConsumed b fw =
     (case outputToUse b of
        Some u \<Rightarrow> [u]
      | None \<Rightarrow>
          if fakeInputs b
          then [CreateOutput zeroUTXOInputID GetNullMessageID OutputSigLockedSingleOutput
                  (WalletAddress fw) (amount b)]
          else WalletOutputs fw)"

text \<open>The selection loop, on the state (transaction builder, consumed inputs, consumed
  amount): every candidate is added as an input and to the sum, and the loop breaks once
  the sum has reached the target.\<close>

fun consumeLoop ::
  "address \<Rightarrow> uint64 \<Rightarrow> Output list \<Rightarrow> TransactionBuilder \<times> Output list \<times> uint64
     \<Rightarrow> TransactionBuilder \<times> Output list \<times> uint64" where
  "consumeLoop fromAddr target [] st = st"
| "consumeLoop fromAddr target (u # us) (tb, consumedInputs, consumedAmount) =
     (let tb' = AddInput tb \<lparr>InputAddress = fromAddr, Input = OutputID u\<rparr>;
          consumedInputs' = consumedInputs @ [u];
          consumedAmount' = consumedAmount + OutputAmount u
      in if consumedAmount' \<ge> target then (tb', consumedInputs', consumedAmount')
         else consumeLoop fromAddr target us (tb', consumedInputs', consumedAmount'))"

text \<open>The remainder of the source: zero unless the consumed amount exceeds the target.\<close>

definition remainderAmount :: "uint64 \<Rightarrow> uint64 \<Rightarrow> uint64" where
  "remainderAmount target consumedAmount =
     (if target < consumedAmount then consumedAmount - target else 0)"

text \<open>The outputs added to the transaction builder after the selection: the payment to
  the destination, and the remainder to the source if the consumed amount exceeds the
  target.\<close>

definition addOutputs ::
  "MessageBuilder \<Rightarrow> address \<Rightarrow> address \<Rightarrow> uint64 \<Rightarrow> TransactionBuilder \<Rightarrow> TransactionBuilder" where
  "addOutputs b fromAddr toAddr consumedAmount tb =
     (let tb1 = (if dustUnlock b
                 then AddOutput tb (SigLockedDustAllowanceOutput toAddr (amount b))
                 else AddOutput tb (SigLockedSingleOutput toAddr (amount b)))
      in if amount b < consumedAmount
         then AddOutput tb1 (SigLockedSingleOutput fromAddr (consumedAmount - amount b))
         else tb1)"

text \<open>The transaction request of a build: the transaction builder as \<^verbatim>\<open>Build\<close> hands it to
  the signer, after the selection loop, the outputs and the indexation payload.\<close>

definition transactionRequest ::
  "MessageBuilder \<Rightarrow> address \<Rightarrow> address \<Rightarrow> Output list \<Rightarrow> TransactionBuilder" where
  "transactionRequest b fromAddr toAddr candidates =
     (case consumeLoop fromAddr (amount b) candidates (NewTransactionBuilder, [], 0) of
        (tb, consumedInputs, consumedAmount) \<Rightarrow>
          AddIndexationPayload (addOutputs b fromAddr toAddr consumedAmount tb)
            \<lparr>Index = indexation b, Data = None\<rparr>)"

text \<open>The classification loop over the indices of the transaction's outputs, on the state
  (sent output, remainder output).\<close>

fun classifyOutputs ::
  "Collaborators \<Rightarrow> bytes \<Rightarrow> Transaction \<Rightarrow> address \<Rightarrow> address \<Rightarrow> uint64 \<Rightarrow> uint64 \<Rightarrow> nat list
     \<Rightarrow> Output option \<times> Output option \<Rightarrow> Failure + Output option \<times> Output option" where
  "classifyOutputs te mid tx fromAddr toAddr amt rem [] st = Inr st"
| "classifyOutputs te mid tx fromAddr toAddr amt rem (i # is) (sent, remainder) =
     (case NewOutput te mid tx (of_nat i) of
        None \<Rightarrow> Inl NewOutputError
      | Some out \<Rightarrow>
          if OutputAddress out = toAddr \<and> OutputAmount out = amt
          then classifyOutputs te mid tx fromAddr toAddr amt rem is (Some out, remainder)
          else if rem > 0 \<and> OutputAddress out = fromAddr \<and> OutputAmount out = rem
          then classifyOutputs te mid tx fromAddr toAddr amt rem is (sent, Some out)
          else classifyOutputs te mid tx fromAddr toAddr amt rem is (sent, remainder))"

text \<open>\<^verbatim>\<open>Build\<close>, check by check in the order of the source. The log line it prints has no
  effect on the result and is left out.\<close>

definition Build ::
  "Collaborators \<Rightarrow> MessageBuilder \<Rightarrow> World \<Rightarrow> (Failure + Message) \<times> World" where
  "Build te b w =
     (if \<not> (amount b > 0) then (Inl AmountNotPositive, w)
      else case fromWallet b of
        None \<Rightarrow> (Inl NilPointerDereference, w)
      | Some f \<Rightarrow>
      (case toWallet b of
        None \<Rightarrow> (Inl NilPointerDereference, w)
      | Some t \<Rightarrow>
      (let fromAddr = WalletAddress (wallets w f);
           toAddr = WalletAddress (wallets w t);
           candidates = outputsThatCanBeConsumed b (wallets w f)
       in if candidates = [] then (Inl NoOutputsToConsume, w)
       else case consumeLoop fromAddr (amount b) candidates (NewTransactionBuilder, [], 0) of
         (tb, consumedInputs, consumedAmount) \<Rightarrow>
       if indexation b = [] then (Inl IndexationEmpty, w)
       else case TxBuild te
                   (AddIndexationPayload (addOutputs b fromAddr toAddr consumedAmount tb)
                      \<lparr>Index = indexation b, Data = None\<rparr>)
                   \<lparr>KeysAddress = fromAddr, Keys = WalletKeyPair (wallets w f)\<rparr> of
         None \<Rightarrow> (Inl TransactionBuildError, w)
       | Some transaction \<Rightarrow>
       (case parents b of
         None \<Rightarrow> (Inl ParentsNil, w)
       | Some ps \<Rightarrow>
       (case MsgBuild te ps (TransactionPayload transaction) of
         None \<Rightarrow> (Inl MessageBuildError, w)
       | Some msg \<Rightarrow>
       (case DoPoW te msg 1 of
         None \<Rightarrow> (Inl PoWError, w)
       | Some msg' \<Rightarrow>
       (case NewMessage te msg' DeSeriModePerformValidation of
         None \<Rightarrow> (Inl MessageValidationError, w)
       | Some vmsg \<Rightarrow>
       (case GetTransaction vmsg of
         None \<Rightarrow> (Inl NilPointerDereference, w)
       | Some messageTx \<Rightarrow>
       (case classifyOutputs te (GetMessageID vmsg) messageTx fromAddr toAddr (amount b)
               (remainderAmount (amount b) consumedAmount)
               [0..<length (EssenceOutputs messageTx)] (None, None) of
         Inl e \<Rightarrow> (Inl e, w)
       | Inr (sent, remainder) \<Rightarrow>
           (Inr \<lparr>builder = b, message = vmsg, consumedOutputs = consumedInputs,
                 sentOutput = sent, remainderOutput = remainder, booked = False,
                 storedMessageID = None\<rparr>, w))))))))))"

section \<open>Store and BookOnWallets\<close>

definition Store :: "Collaborators \<Rightarrow> Message \<Rightarrow> World \<Rightarrow> (Failure + Message) \<times> World" where
  "Store te m w =
     (if storedMessageID m \<noteq> None then (Inl AlreadyStored, w)
      else case StoreMessage te (message m) (storage w) of
        (cached, storage') \<Rightarrow>
          (Inr (m\<lparr>storedMessageID := Some (GetMessageID cached)\<rparr>), w\<lparr>storage := storage'\<rparr>))"

text \<open>A booking call through a nullable wallet reference, on the store of the wallets:
  on a wallet, the wallet becomes what the operation returns; on nil, the method either
  returns with the wallets as they were or panics (\<open>None\<close>).\<close>

definition callBookSpents ::
  "Collaborators \<Rightarrow> nat option \<Rightarrow> Output list \<Rightarrow> (nat \<Rightarrow> HDWallet) \<Rightarrow> (nat \<Rightarrow> HDWallet) option" where
  "callBookSpents te r outs ws =
     (case r of
        None \<Rightarrow> if BookSpentsOnNil te outs then Some ws else None
      | Some f \<Rightarrow> Some (ws(f := BookSpents te (ws f) outs)))"

definition callBookOutput ::
  "Collaborators \<Rightarrow> nat option \<Rightarrow> Output option \<Rightarrow> (nat \<Rightarrow> HDWallet) \<Rightarrow> (nat \<Rightarrow> HDWallet) option" where
  "callBookOutput te r out ws =
     (case r of
        None \<Rightarrow> if BookOutputOnNil te out then Some ws else None
      | Some f \<Rightarrow> Some (ws(f := BookOutput te (ws f) out)))"

definition BookOnWallets ::
  "Collaborators \<Rightarrow> Message \<Rightarrow> World \<Rightarrow> (Failure + Message) \<times> World" where
  "BookOnWallets te m w =
     (if booked m then (Inl AlreadyBooked, w)
      else case callBookSpents te (fromWallet (builder m)) (consumedOutputs m) (wallets w) of
        None \<Rightarrow> (Inl NilPointerDereference, w)
      | Some ws1 \<Rightarrow>
      (case callBookOutput te (toWallet (builder m)) (sentOutput m) ws1 of
        None \<Rightarrow> (Inl NilPointerDereference, w\<lparr>wallets := ws1\<rparr>)
      | Some ws2 \<Rightarrow>
      (case callBookOutput te (fromWallet (builder m)) (remainderOutput m) ws2 of
        None \<Rightarrow> (Inl NilPointerDereference, w\<lparr>wallets := ws2\<rparr>)
      | Some ws3 \<Rightarrow> (Inr (m\<lparr>booked := True\<rparr>), w\<lparr>wallets := ws3\<rparr>))))"

section \<open>Sums of amounts and the greedy prefix\<close>

text \<open>The sum of the amounts of a list of outputs: as the \<^verbatim>\<open>uint64\<close> the source computes
  (it wraps around), and as a natural number.\<close>

definition sumAmounts :: "Output list \<Rightarrow> uint64" where
  "sumAmounts us = sum_list (map OutputAmount us)"

definition totalAmount :: "Output list \<Rightarrow> nat" where
  "totalAmount us = sum_list (map (\<lambda>u. unat (OutputAmount u)) us)"

text \<open>The selection as the specification words it: candidates are accumulated in list
  order, from a running sum, until the running sum has reached the target or the
  candidates are exhausted.\<close>

fun greedyPrefix :: "uint64 \<Rightarrow> uint64 \<Rightarrow> Output list \<Rightarrow> Output list" where
  "greedyPrefix target run [] = []"
| "greedyPrefix target run (u # us) =
     (if run + OutputAmount u \<ge> target then [u]
      else u # greedyPrefix target (run + OutputAmount u) us)"

text \<open>The last element of a list satisfying a predicate, if any.\<close>

definition lastMatch :: "('a \<Rightarrow> bool) \<Rightarrow> 'a list \<Rightarrow> 'a option" where
  "lastMatch P xs = (case filter P xs of [] \<Rightarrow> None | y # ys \<Rightarrow> Some (last (y # ys)))"

text \<open>The two roles of the classification: a sent output goes to the destination for the
  target amount; a remainder output is not a sent output and goes to the source for the
  remainder, which must be positive.\<close>

definition isSent :: "address \<Rightarrow> uint64 \<Rightarrow> Output \<Rightarrow> bool" where
  "isSent toAddr amt out \<longleftrightarrow> OutputAddress out = toAddr \<and> OutputAmount out = amt"

definition isRemainder :: "address \<Rightarrow> address \<Rightarrow> uint64 \<Rightarrow> uint64 \<Rightarrow> Output \<Rightarrow> bool" where
  "isRemainder fromAddr toAddr amt rem out \<longleftrightarrow>
     \<not> isSent toAddr amt out \<and> rem > 0 \<and> OutputAddress out = fromAddr \<and> OutputAmount out = rem"

section \<open>The wallet and the store of the specification\<close>

text \<open>Modelled from the spec: \<^verbatim>\<open>HDWallet.BookSpents\<close> is not part of the source file;
  spend-booking removes every consumed input from the wallet's output set, an exact
  removal by identifier, and leaves the other outputs in place.\<close>

definition specBookSpents :: "HDWallet \<Rightarrow> Output list \<Rightarrow> HDWallet" where
  "specBookSpents wl spent =
     wl\<lparr>WalletOutputs := filter (\<lambda>u. OutputID u \<notin> OutputID ` set spent) (WalletOutputs wl)\<rparr>"

text \<open>Modelled from the spec: \<^verbatim>\<open>HDWallet.BookOutput\<close> is not part of the source file;
  credit-booking adds the output to the wallet's set if one was identified (it is not nil).\<close>

definition specBookOutput :: "HDWallet \<Rightarrow> Output option \<Rightarrow> HDWallet" where
  "specBookOutput wl out =
     (case out of
        None \<Rightarrow> wl
      | Some u \<Rightarrow> wl\<lparr>WalletOutputs := WalletOutputs wl @ [u]\<rparr>)"

text \<open>Modelled from the spec: \<^verbatim>\<open>TestEnvironment.StoreMessage\<close> is not part of the source file; the
  MessageStore appends the validated message and returns a handle that exposes it.\<close>

definition specStoreMessage ::
  "StorageMessage \<Rightarrow> StorageMessage list \<Rightarrow> StorageMessage \<times> StorageMessage list" where
  "specStoreMessage msg st = (msg, st @ [msg])"

section \<open>A concrete test environment\<close>

text \<open>
  Modelled from the spec: the codec, the proof-of-work engine and \<^verbatim>\<open>utxo.NewOutput\<close> are not
  part of the source file. This instance follows their contracts in the simplest way: the
  transaction assembly rejects a request with zero inputs and keeps the declared outputs in
  their order, the message builder needs at least one parent, proof of work sets a nonce,
  validation gives the message an identifier, and the output at an index of a transaction
  carries the type, address and amount declared there. A booking call on a nil wallet
  returns when there is nothing to book and panics otherwise.
\<close>

definition simpleTxBuild :: "TransactionBuilder \<Rightarrow> AddressKeys \<Rightarrow> Transaction option" where
  "simpleTxBuild tb signer =
     (if tbInputs tb = [] then None
      else Some \<lparr>EssenceInputs = map Input (tbInputs tb), EssenceOutputs = tbOutputs tb,
                 EssencePayload = tbPayload tb, UnlockBlocks = [Keys signer]\<rparr>)"

definition simpleMsgBuild :: "MessageID list \<Rightarrow> Payload \<Rightarrow> IotaMessage option" where
  "simpleMsgBuild ps payload =
     (if ps = [] then None
      else Some \<lparr>MsgParents = ps, MsgPayload = payload, MsgNonce = 0\<rparr>)"

definition simpleDoPoW :: "IotaMessage \<Rightarrow> nat \<Rightarrow> IotaMessage option" where
  "simpleDoPoW msg n = Some (msg\<lparr>MsgNonce := 1\<rparr>)"

definition simpleNewMessage :: "IotaMessage \<Rightarrow> DeSerializationMode \<Rightarrow> StorageMessage option" where
  "simpleNewMessage msg mode =
     Some \<lparr>GetMessageID = 77 # concat (map (\<lambda>p. case p of None \<Rightarrow> [] | Some x \<Rightarrow> x) (MsgParents msg)),
           GetMessage = msg\<rparr>"

definition simpleNewOutput :: "bytes \<Rightarrow> Transaction \<Rightarrow> 16 word \<Rightarrow> Output option" where
  "simpleNewOutput mid tx i =
     (if unat i < length (EssenceOutputs tx)
      then (case EssenceOutputs tx ! unat i of
              SigLockedSingleOutput a v \<Rightarrow>
                Some (CreateOutput (mid @ [ucast i]) mid OutputSigLockedSingleOutput a v)
            | SigLockedDustAllowanceOutput a v \<Rightarrow>
                Some (CreateOutput (mid @ [ucast i]) mid OutputSigLockedDustAllowanceOutput a v))
      else None)"

definition simpleCollaborators :: Collaborators where
  "simpleCollaborators =
     \<lparr>TxBuild = simpleTxBuild, MsgBuild = simpleMsgBuild, DoPoW = simpleDoPoW,
      NewMessage = simpleNewMessage, NewOutput = simpleNewOutput,
      StoreMessage = specStoreMessage, BookSpents = specBookSpents,
      BookOutput = specBookOutput, BookSpentsOnNil = (\<lambda>outs. outs = []),
      BookOutputOnNil = (\<lambda>out. out = None)\<rparr>"

text \<open>
  The order of the outputs in the transaction the codec returns is the codec's affair.
  A second instance differs from the first in the transaction assembly only: it puts the
  single outputs before the dust-allowance outputs, whatever the order of the request.
\<close>

fun isSingleOutput :: "SigLockedOutput \<Rightarrow> bool" where
  "isSingleOutput (SigLockedSingleOutput a v) = True"
| "isSingleOutput (SigLockedDustAllowanceOutput a v) = False"

definition orderingTxBuild :: "TransactionBuilder \<Rightarrow> AddressKeys \<Rightarrow> Transaction option" where
  "orderingTxBuild tb signer =
     (if tbInputs tb = [] then None
      else Some \<lparr>EssenceInputs = map Input (tbInputs tb),
                 EssenceOutputs = filter isSingleOutput (tbOutputs tb) @
                                  filter (\<lambda>out. \<not> isSingleOutput out) (tbOutputs tb),
                 EssencePayload = tbPayload tb, UnlockBlocks = [Keys signer]\<rparr>)"

definition orderingCollaborators :: Collaborators where
  "orderingCollaborators = simpleCollaborators\<lparr>TxBuild := orderingTxBuild\<rparr>"

text \<open>A third instance in which the transaction assembly always fails.\<close>

definition rejectingCollaborators :: Collaborators where
  "rejectingCollaborators = simpleCollaborators\<lparr>TxBuild := (\<lambda>tb signer. None)\<rparr>"

text \<open>Wallet 0 (address \<open>Xa\<close>) holds the given outputs, wallet 1 (address \<open>Xb\<close>) holds
  none; the builder sends from wallet 0 to wallet 1 with one parent.\<close>

definition fundedOutput :: "8 word \<Rightarrow> uint64 \<Rightarrow> Output" where
  "fundedOutput n v = CreateOutput [n] [9] OutputSigLockedSingleOutput ''Xa'' v"

definition exampleWorld :: "Output list \<Rightarrow> World" where
  "exampleWorld outs =
     \<lparr>wallets = (\<lambda>r. if r = 0
                       then \<lparr>WalletAddress = ''Xa'', WalletKeyPair = [1], WalletOutputs = outs\<rparr>
                       else \<lparr>WalletAddress = ''Xb'', WalletKeyPair = [2], WalletOutputs = []\<rparr>),
      storage = []\<rparr>"

definition exampleBuilder :: "uint64 \<Rightarrow> MessageBuilder" where
  "exampleBuilder a =
     Amount a (ToWallet (Some 1) (FromWallet (Some 0)
       (Parents (Some [Some [5]]) (NewMessageBuilder ''tag''))))"

text \<open>The message of a successful build in the concrete environment, and in the one
  that orders the outputs.\<close>

definition builtMessage :: "MessageBuilder \<Rightarrow> World \<Rightarrow> Message" where
  "builtMessage b w = projr (fst (Build simpleCollaborators b w))"

definition orderedMessage :: "MessageBuilder \<Rightarrow> World \<Rightarrow> Message" where
  "orderedMessage b w = projr (fst (Build orderingCollaborators b w))"

section \<open>Properties of the loops and of a successful build\<close>

text \<open>The unfolding rules for evaluating the definitions on the concrete environment.\<close>

lemmas example_defs =
  Build_def BuildIndexation_def Store_def BookOnWallets_def callBookSpents_def
  callBookOutput_def orderingCollaborators_def orderingTxBuild_def rejectingCollaborators_def
  exampleBuilder_def exampleWorld_def fundedOutput_def simpleCollaborators_def
  NewMessageBuilder_def Parents_def FromWallet_def ToWallet_def Amount_def DustAllowance_def
  FakeInputs_def UsingOutput_def outputsThatCanBeConsumed_def CreateOutput_def
  zeroUTXOInputID_def GetNullMessageID_def
  transactionRequest_def addOutputs_def remainderAmount_def NewTransactionBuilder_def
  AddInput_def AddOutput_def AddIndexationPayload_def GetTransaction_def
  simpleTxBuild_def simpleMsgBuild_def simpleDoPoW_def simpleNewMessage_def
  simpleNewOutput_def specStoreMessage_def specBookSpents_def specBookOutput_def
  OutputSigLockedSingleOutput_def OutputSigLockedDustAllowanceOutput_def
  sumAmounts_def totalAmount_def isSent_def isRemainder_def lastMatch_def Let_def

subsection \<open>The selection loop\<close>

lemma consumeLoop_eq:
  "consumeLoop fa tg us (tb, ins, amt) =
     (tb\<lparr>tbInputs := tbInputs tb @
          map (\<lambda>u. \<lparr>InputAddress = fa, Input = OutputID u\<rparr>) (greedyPrefix tg amt us)\<rparr>,
      ins @ greedyPrefix tg amt us,
      amt + sumAmounts (greedyPrefix tg amt us))"
  by (induction us arbitrary: tb ins amt)
    (simp_all add: Let_def AddInput_def sumAmounts_def add.assoc)

lemma greedyPrefix_take: "greedyPrefix tg run us = take (length (greedyPrefix tg run us)) us"
  by (induction us arbitrary: run) auto

lemma greedyPrefix_nonempty: "us \<noteq> [] \<Longrightarrow> greedyPrefix tg run us \<noteq> []"
  by (cases us) auto

lemma greedyPrefix_stop:
  "tg \<le> run + sumAmounts (greedyPrefix tg run us) \<or> greedyPrefix tg run us = us"
proof (induction us arbitrary: run)
  case Nil
  then show ?case by simp
next
  case (Cons u us)
  from Cons [of "run + OutputAmount u"] show ?case
    by (auto simp: sumAmounts_def add.assoc)
qed

lemma greedyPrefix_minimal:
  "0 < n \<Longrightarrow> n < length (greedyPrefix tg run us) \<Longrightarrow> run + sumAmounts (take n us) < tg"
proof (induction us arbitrary: run n)
  case Nil
  then show ?case by simp
next
  case (Cons u us)
  show ?case
  proof (cases "tg \<le> run + OutputAmount u")
    case True
    with Cons.prems show ?thesis by simp
  next
    case False
    obtain k where n: "n = Suc k"
      using Cons.prems(1) by (cases n) auto
    show ?thesis
    proof (cases k)
      case 0
      with n False show ?thesis by (simp add: sumAmounts_def)
    next
      case (Suc j)
      with n Cons.prems False
      have "run + OutputAmount u + sumAmounts (take k us) < tg"
        by (intro Cons.IH) auto
      with n show ?thesis by (simp add: sumAmounts_def add.assoc)
    qed
  qed
qed

lemma unat_sumAmounts: "totalAmount us < 2 ^ 64 \<Longrightarrow> unat (sumAmounts us) = totalAmount us"
  by (induction us) (simp_all add: sumAmounts_def totalAmount_def unat_word_ariths)

lemma totalAmount_take: "totalAmount (take n us) \<le> totalAmount us"
  by (induction us arbitrary: n) (auto simp: totalAmount_def take_Cons split: nat.splits)

lemma unat_sumAmounts_take:
  "totalAmount us < 2 ^ 64 \<Longrightarrow> unat (sumAmounts (take n us)) = totalAmount (take n us)"
  using totalAmount_take [of n us] by (intro unat_sumAmounts) simp

lemma sumAmounts_le_total: "unat (sumAmounts us) \<le> totalAmount us"
  by (induction us) (simp_all add: sumAmounts_def totalAmount_def unat_word_ariths)

subsection \<open>The classification loop\<close>

lemma lastMatch_Cons:
  "lastMatch P (x # xs) =
     (case lastMatch P xs of Some y \<Rightarrow> Some y | None \<Rightarrow> if P x then Some x else None)"
  by (auto simp: lastMatch_def split: list.splits)

lemma lastMatch_Some: "lastMatch P xs = Some x \<Longrightarrow> P x \<and> x \<in> set xs"
proof -
  assume a: "lastMatch P xs = Some x"
  then obtain y ys where f: "filter P xs = y # ys" and x: "x = last (y # ys)"
    by (auto simp: lastMatch_def split: list.splits)
  have "last (y # ys) \<in> set (y # ys)" by (rule last_in_set) simp
  with f x have "x \<in> set (filter P xs)" by simp
  then show ?thesis by simp
qed

lemma lastMatch_None: "(lastMatch P xs = None) = (\<forall>x\<in>set xs. \<not> P x)"
proof (induction xs)
  case Nil
  show ?case by (simp add: lastMatch_def)
next
  case (Cons a xs)
  then show ?case by (auto simp: lastMatch_Cons split: option.splits)
qed

lemma lastMatch_split:
  "lastMatch P xs = Some x \<Longrightarrow> \<exists>pre post. xs = pre @ x # post \<and> P x \<and> (\<forall>y\<in>set post. \<not> P y)"
proof (induction xs)
  case Nil
  then show ?case by (simp add: lastMatch_def)
next
  case (Cons a xs)
  show ?case
  proof (cases "lastMatch P xs")
    case None
    with Cons.prems have ax: "P a" "x = a"
      by (auto simp: lastMatch_Cons split: if_splits)
    from None have "\<forall>y\<in>set xs. \<not> P y"
      by (simp add: lastMatch_None)
    with ax have "a # xs = [] @ x # xs \<and> P x \<and> (\<forall>y\<in>set xs. \<not> P y)"
      by simp
    then show ?thesis by blast
  next
    case (Some y)
    with Cons.prems have "lastMatch P xs = Some x"
      by (simp add: lastMatch_Cons)
    from Cons.IH [OF this] obtain pre post where
      "xs = pre @ x # post" "P x" "\<forall>y\<in>set post. \<not> P y"
      by blast
    then have "a # xs = (a # pre) @ x # post \<and> P x \<and> (\<forall>y\<in>set post. \<not> P y)"
      by simp
    then show ?thesis by blast
  qed
qed

lemma classifyOutputs_Inl:
  "classifyOutputs te mid tx fa ta amt rem is st = Inl e \<Longrightarrow> e = NewOutputError"
  by (induction "is" arbitrary: st) (auto split: option.splits if_splits)

lemma classifyOutputs_Inr:
  "classifyOutputs te mid tx fa ta amt rem is (s0, r0) = Inr (s, r) \<Longrightarrow>
   \<exists>outs. those (map (\<lambda>i. NewOutput te mid tx (of_nat i)) is) = Some outs \<and>
     s = (case lastMatch (isSent ta amt) outs of None \<Rightarrow> s0 | Some x \<Rightarrow> Some x) \<and>
     r = (case lastMatch (isRemainder fa ta amt rem) outs of None \<Rightarrow> r0 | Some x \<Rightarrow> Some x)"
proof (induction "is" arbitrary: s0 r0)
  case Nil
  then show ?case by (simp add: lastMatch_def)
next
  case (Cons i "is")
  from Cons.prems obtain out where out: "NewOutput te mid tx (of_nat i) = Some out"
    by (auto split: option.splits)
  show ?case
  proof (cases "isSent ta amt out")
    case True
    with Cons.prems out
    have "classifyOutputs te mid tx fa ta amt rem is (Some out, r0) = Inr (s, r)"
      by (simp add: isSent_def)
    from Cons.IH [OF this] True out show ?thesis
      by (auto simp: lastMatch_Cons isRemainder_def split: option.splits)
  next
    case False
    note ns = this
    show ?thesis
    proof (cases "isRemainder fa ta amt rem out")
      case True
      with Cons.prems out ns
      have "classifyOutputs te mid tx fa ta amt rem is (s0, Some out) = Inr (s, r)"
        by (auto simp: isSent_def isRemainder_def split: if_splits)
      from Cons.IH [OF this] True ns out show ?thesis
        by (auto simp: lastMatch_Cons split: option.splits)
    next
      case False
      with Cons.prems out ns
      have "classifyOutputs te mid tx fa ta amt rem is (s0, r0) = Inr (s, r)"
        by (auto simp: isSent_def isRemainder_def split: if_splits)
      from Cons.IH [OF this] False ns out show ?thesis
        by (auto simp: lastMatch_Cons split: option.splits)
    qed
  qed
qed

subsection \<open>The parents of a tag-only build\<close>



subsection \<open>A successful build\<close>

lemma Build_Inr:
  assumes "Build te b w = (Inr m, w')"
  shows "\<exists>f t tx ps msg msg' vmsg mtx.
     0 < amount b \<and> fromWallet b = Some f \<and> toWallet b = Some t \<and>
     outputsThatCanBeConsumed b (wallets w f) \<noteq> [] \<and> indexation b \<noteq> [] \<and>
     TxBuild te (transactionRequest b (WalletAddress (wallets w f)) (WalletAddress (wallets w t))
         (outputsThatCanBeConsumed b (wallets w f)))
       \<lparr>KeysAddress = WalletAddress (wallets w f), Keys = WalletKeyPair (wallets w f)\<rparr> = Some tx \<and>
     parents b = Some ps \<and> MsgBuild te ps (TransactionPayload tx) = Some msg \<and>
     DoPoW te msg 1 = Some msg' \<and>
     NewMessage te msg' DeSeriModePerformValidation = Some vmsg \<and>
     GetTransaction vmsg = Some mtx \<and>
     classifyOutputs te (GetMessageID vmsg) mtx (WalletAddress (wallets w f))
       (WalletAddress (wallets w t)) (amount b)
       (remainderAmount (amount b)
          (sumAmounts (greedyPrefix (amount b) 0 (outputsThatCanBeConsumed b (wallets w f)))))
       [0..<length (EssenceOutputs mtx)] (None, None) = Inr (sentOutput m, remainderOutput m) \<and>
     consumedOutputs m = greedyPrefix (amount b) 0 (outputsThatCanBeConsumed b (wallets w f)) \<and>
     builder m = b \<and> message m = vmsg \<and> \<not> booked m \<and> storedMessageID m = None \<and> w' = w"
  using assms unfolding Build_def
  by (auto simp: Let_def consumeLoop_eq transactionRequest_def
      split: if_splits option.splits sum.splits prod.splits)

lemma Build_world: "snd (Build te b w) = w"
  unfolding Build_def
  by (auto simp: Let_def split: if_splits option.splits sum.splits prod.splits)

lemma BuildIndexation_world: "snd (BuildIndexation te b w) = w"
  unfolding BuildIndexation_def
  by (auto split: if_splits option.splits sum.splits)

lemma remainderAmount_pos:
  "0 < remainderAmount tg ca \<Longrightarrow> tg < ca \<and> remainderAmount tg ca = ca - tg"
  by (auto simp: remainderAmount_def split: if_splits)

lemma Build_consumed:
  assumes "Build te b w = (Inr m, w')"
  shows "\<exists>f. fromWallet b = Some f \<and> outputsThatCanBeConsumed b (wallets w f) \<noteq> [] \<and>
     consumedOutputs m = greedyPrefix (amount b) 0 (outputsThatCanBeConsumed b (wallets w f))"
  using Build_Inr [OF assms] by auto

lemma Build_classified:
  assumes "Build te b w = (Inr m, w')"
  shows "\<exists>f t mtx. fromWallet b = Some f \<and> toWallet b = Some t \<and>
     GetTransaction (message m) = Some mtx \<and>
     classifyOutputs te (GetMessageID (message m)) mtx (WalletAddress (wallets w f))
       (WalletAddress (wallets w t)) (amount b)
       (remainderAmount (amount b) (sumAmounts (consumedOutputs m)))
       [0..<length (EssenceOutputs mtx)] (None, None) = Inr (sentOutput m, remainderOutput m)"
  using Build_Inr [OF assms] by auto

lemma Build_signed:
  assumes "Build te b w = (Inr m, w')"
  shows "\<exists>f t tx. fromWallet b = Some f \<and> toWallet b = Some t \<and>
     TxBuild te (transactionRequest b (WalletAddress (wallets w f)) (WalletAddress (wallets w t))
         (outputsThatCanBeConsumed b (wallets w f)))
       \<lparr>KeysAddress = WalletAddress (wallets w f), Keys = WalletKeyPair (wallets w f)\<rparr> = Some tx"
  using Build_Inr [OF assms] by auto

lemma Build_remainder:
  assumes "Build te b w = (Inr m, w')" and "remainderOutput m = Some r"
  shows "amount b < sumAmounts (consumedOutputs m) \<and>
         OutputAmount r = sumAmounts (consumedOutputs m) - amount b"
proof -
  from Build_classified [OF assms(1)] obtain f t mtx where
    cl: "classifyOutputs te (GetMessageID (message m)) mtx (WalletAddress (wallets w f))
       (WalletAddress (wallets w t)) (amount b)
       (remainderAmount (amount b) (sumAmounts (consumedOutputs m)))
       [0..<length (EssenceOutputs mtx)] (None, None) = Inr (sentOutput m, remainderOutput m)"
    by blast
  from classifyOutputs_Inr [OF cl] assms(2) obtain outs where
    "lastMatch (isRemainder (WalletAddress (wallets w f)) (WalletAddress (wallets w t)) (amount b)
       (remainderAmount (amount b) (sumAmounts (consumedOutputs m)))) outs = Some r"
    by (auto split: option.splits)
  from lastMatch_Some [OF this]
  have "0 < remainderAmount (amount b) (sumAmounts (consumedOutputs m))"
    and "OutputAmount r = remainderAmount (amount b) (sumAmounts (consumedOutputs m))"
    by (auto simp: isRemainder_def)
  with remainderAmount_pos show ?thesis by auto
qed

lemma transactionRequest_eq:
  "transactionRequest b fa ta cands =
     \<lparr>tbInputs = map (\<lambda>u. \<lparr>InputAddress = fa, Input = OutputID u\<rparr>) (greedyPrefix (amount b) 0 cands),
      tbOutputs =
        (if dustUnlock b then SigLockedDustAllowanceOutput ta (amount b)
         else SigLockedSingleOutput ta (amount b)) #
        (if amount b < sumAmounts (greedyPrefix (amount b) 0 cands)
         then [SigLockedSingleOutput fa (sumAmounts (greedyPrefix (amount b) 0 cands) - amount b)]
         else []),
      tbPayload = Some \<lparr>Index = indexation b, Data = None\<rparr>\<rparr>"
  by (simp add: transactionRequest_def consumeLoop_eq addOutputs_def AddOutput_def
      AddIndexationPayload_def NewTransactionBuilder_def Let_def)

lemma Build_override:
  assumes "Build te b w = (Inr m, w')" and "outputToUse b = Some u"
  shows "consumedOutputs m = [u]"
  using Build_consumed [OF assms(1)] assms(2) by (auto simp: outputsThatCanBeConsumed_def)

lemma Build_fake:
  assumes "Build te b w = (Inr m, w')" and "outputToUse b = None" and "fakeInputs b"
  shows "\<exists>f. fromWallet b = Some f \<and>
     consumedOutputs m = [CreateOutput zeroUTXOInputID GetNullMessageID
        OutputSigLockedSingleOutput (WalletAddress (wallets w f)) (amount b)]"
  using Build_consumed [OF assms(1)] assms(2,3) by (auto simp: outputsThatCanBeConsumed_def)

lemma Build_no_candidates:
  "(fst (Build te b w) = Inl NoOutputsToConsume) =
   (0 < amount b \<and> (\<exists>f t. fromWallet b = Some f \<and> toWallet b = Some t \<and>
      outputsThatCanBeConsumed b (wallets w f) = []))"
  unfolding Build_def
  by (auto simp: Let_def dest: classifyOutputs_Inl
      split: if_splits option.splits sum.splits prod.splits)

lemma no_candidates_iff:
  "(outputsThatCanBeConsumed b fw = []) =
   (outputToUse b = None \<and> \<not> fakeInputs b \<and> WalletOutputs fw = [])"
  by (auto simp: outputsThatCanBeConsumed_def split: option.splits)

lemma category_InsufficientFunds: "(category e = InsufficientFunds) = (e = NoOutputsToConsume)"
  by (cases e) simp_all

lemma Build_tag_or_parents_missing:
  "indexation b = [] \<or> parents b = None \<Longrightarrow> isl (fst (Build te b w))"
  unfolding Build_def
  by (auto simp: Let_def split: if_splits option.splits sum.splits prod.splits)

subsection \<open>Booking through nil wallets\<close>

text \<open>When the booking methods return on a nil wallet, a message whose builder has no
  wallets, such as a tag-only message, is booked and the wallets are as they were.\<close>

lemma BookOnWallets_nil_wallets:
  assumes "\<not> booked m" and "fromWallet (builder m) = None" and "toWallet (builder m) = None"
    and "BookSpentsOnNil te (consumedOutputs m)" and "BookOutputOnNil te (sentOutput m)"
    and "BookOutputOnNil te (remainderOutput m)"
  shows "BookOnWallets te m w = (Inr (m\<lparr>booked := True\<rparr>), w)"
  using assms by (simp add: BookOnWallets_def callBookSpents_def callBookOutput_def)

subsection \<open>The failures of a build\<close>

lemma Build_amount_iff: "(fst (Build te b w) = Inl AmountNotPositive) = (amount b = 0)"
  unfolding Build_def
  by (auto simp: Let_def word_gt_0 dest: classifyOutputs_Inl
      split: if_splits option.splits sum.splits prod.splits)

lemma Build_tag_iff:
  "(fst (Build te b w) = Inl IndexationEmpty) =
   (0 < amount b \<and> indexation b = [] \<and>
    (\<exists>f t. fromWallet b = Some f \<and> toWallet b = Some t \<and>
       outputsThatCanBeConsumed b (wallets w f) \<noteq> []))"
  unfolding Build_def
  by (auto simp: Let_def dest: classifyOutputs_Inl
      split: if_splits option.splits sum.splits prod.splits)

lemma Build_parents_iff:
  "(fst (Build te b w) = Inl ParentsNil) =
   (0 < amount b \<and> indexation b \<noteq> [] \<and> parents b = None \<and>
    (\<exists>f t. fromWallet b = Some f \<and> toWallet b = Some t \<and>
       outputsThatCanBeConsumed b (wallets w f) \<noteq> [] \<and>
       TxBuild te (transactionRequest b (WalletAddress (wallets w f)) (WalletAddress (wallets w t))
           (outputsThatCanBeConsumed b (wallets w f)))
         \<lparr>KeysAddress = WalletAddress (wallets w f), Keys = WalletKeyPair (wallets w f)\<rparr> \<noteq> None))"
  unfolding Build_def
  by (auto simp: Let_def transactionRequest_def dest: classifyOutputs_Inl
      split: if_splits option.splits sum.splits prod.splits)

lemma Build_not_ParentNil: "fst (Build te b w) \<noteq> Inl ParentNil"
  unfolding Build_def
  by (auto simp: Let_def dest: classifyOutputs_Inl
      split: if_splits option.splits sum.splits prod.splits)

lemma category_Precondition:
  "(category e = PreconditionViolation) =
   (e = AmountNotPositive \<or> e = IndexationEmpty \<or> e = ParentsNil \<or> e = ParentNil)"
  by (cases e) simp_all

section \<open>The claims\<close>

subsection \<open>C1: the consumed amounts against the target\<close>

text \<open>
  C1, as stated, fails: a build succeeds although the consumed inputs sum to less than the
  target. Wallet 0 holds a single output of 10 and the target is 60; the only check of the
  source is that the candidate list is not empty, so the output is consumed, no remainder
  is declared and the build goes through with a consumed sum of 10.
\<close>

theorem C1_counterexample:
  "\<not> isl (fst (Build simpleCollaborators (exampleBuilder 60) (exampleWorld [fundedOutput 1 10]))) \<and>
   totalAmount (consumedOutputs (builtMessage (exampleBuilder 60) (exampleWorld [fundedOutput 1 10]))) = 10 \<and>
   unat (amount (exampleBuilder 60)) = 60"
  by (simp add: builtMessage_def example_defs upt_rec)

text \<open>
  C1, amended. For every successful build: if the amounts of the candidate outputs sum to
  at least the target, then so do the amounts of the consumed inputs; and whenever a
  remainder output is produced, the consumed sum, as the \<^verbatim>\<open>uint64\<close> the source
  accumulates, is exactly the target plus the remainder's amount, without wrap-around on
  the right-hand side. That sum is the sum of the amounts as natural numbers whenever the
  latter is below \<open>2 ^ 64\<close>.
\<close>

theorem C1_consumed_sum:
  assumes "Build te b w = (Inr m, w')"
  shows "(\<forall>f. fromWallet b = Some f \<longrightarrow>
            unat (amount b) \<le> totalAmount (outputsThatCanBeConsumed b (wallets w f)) \<longrightarrow>
            unat (amount b) \<le> totalAmount (consumedOutputs m)) \<and>
         (\<forall>r. remainderOutput m = Some r \<longrightarrow>
            sumAmounts (consumedOutputs m) = amount b + OutputAmount r \<and>
            unat (sumAmounts (consumedOutputs m)) = unat (amount b) + unat (OutputAmount r) \<and>
            (totalAmount (consumedOutputs m) < 2 ^ 64 \<longrightarrow>
               totalAmount (consumedOutputs m) = unat (amount b) + unat (OutputAmount r)))"
proof (intro conjI allI impI)
  fix f
  assume f: "fromWallet b = Some f"
    and cover: "unat (amount b) \<le> totalAmount (outputsThatCanBeConsumed b (wallets w f))"
  from Build_consumed [OF assms] f
  have c: "consumedOutputs m = greedyPrefix (amount b) 0 (outputsThatCanBeConsumed b (wallets w f))"
    by auto
  from greedyPrefix_stop [of "amount b" 0 "outputsThatCanBeConsumed b (wallets w f)"]
  show "unat (amount b) \<le> totalAmount (consumedOutputs m)"
  proof
    assume "amount b \<le> 0 + sumAmounts (greedyPrefix (amount b) 0 (outputsThatCanBeConsumed b (wallets w f)))"
    with c have "unat (amount b) \<le> unat (sumAmounts (consumedOutputs m))"
      by (simp add: word_le_nat_alt)
    also have "\<dots> \<le> totalAmount (consumedOutputs m)" by (rule sumAmounts_le_total)
    finally show ?thesis .
  next
    assume "greedyPrefix (amount b) 0 (outputsThatCanBeConsumed b (wallets w f)) =
            outputsThatCanBeConsumed b (wallets w f)"
    with c cover show ?thesis by simp
  qed
next
  fix r
  assume r: "remainderOutput m = Some r"
  from Build_remainder [OF assms r]
  have lt: "amount b < sumAmounts (consumedOutputs m)"
    and eq: "OutputAmount r = sumAmounts (consumedOutputs m) - amount b"
    by auto
  from eq show w: "sumAmounts (consumedOutputs m) = amount b + OutputAmount r" by simp
  from lt have le: "amount b \<le> sumAmounts (consumedOutputs m)" by simp
  from le have "unat (sumAmounts (consumedOutputs m) - amount b) =
      unat (sumAmounts (consumedOutputs m)) - unat (amount b)"
    by (rule unat_sub)
  moreover from le have "unat (amount b) \<le> unat (sumAmounts (consumedOutputs m))"
    by (simp add: word_le_nat_alt)
  ultimately show u: "unat (sumAmounts (consumedOutputs m)) = unat (amount b) + unat (OutputAmount r)"
    using eq by simp
  assume "totalAmount (consumedOutputs m) < 2 ^ 64"
  from unat_sumAmounts [OF this] u
  show "totalAmount (consumedOutputs m) = unat (amount b) + unat (OutputAmount r)" by simp
qed

text \<open>The scenario of the specification: wallet 0 holds one output of 100 and 60 are
  sent; the input of 100 is consumed and the remainder is 40.\<close>

theorem C1_consumed_sum_witness:
  "Build simpleCollaborators (exampleBuilder 60) (exampleWorld [fundedOutput 1 100]) =
     (Inr (builtMessage (exampleBuilder 60) (exampleWorld [fundedOutput 1 100])),
      exampleWorld [fundedOutput 1 100]) \<and>
   remainderOutput (builtMessage (exampleBuilder 60) (exampleWorld [fundedOutput 1 100])) =
     Some (CreateOutput [77, 5, 1] [77, 5] OutputSigLockedSingleOutput ''Xa'' 40) \<and>
   unat (60 :: uint64) \<le> totalAmount (consumedOutputs (builtMessage (exampleBuilder 60) (exampleWorld [fundedOutput 1 100]))) \<and>
   totalAmount (consumedOutputs (builtMessage (exampleBuilder 60) (exampleWorld [fundedOutput 1 100]))) =
     unat (60 :: uint64) + unat (40 :: uint64)"
proof -
  let ?b = "exampleBuilder 60" and ?w = "exampleWorld [fundedOutput 1 100]"
  have ev: "Build simpleCollaborators ?b ?w = (Inr (builtMessage ?b ?w), ?w)"
    by (simp add: builtMessage_def example_defs upt_rec)
  have f: "fromWallet ?b = Some 0"
    by (simp add: example_defs)
  have cover: "unat (amount ?b) \<le> totalAmount (outputsThatCanBeConsumed ?b (wallets ?w 0))"
    by (simp add: example_defs)
  have r: "remainderOutput (builtMessage ?b ?w) =
      Some (CreateOutput [77, 5, 1] [77, 5] OutputSigLockedSingleOutput ''Xa'' 40)"
    by (simp add: builtMessage_def example_defs upt_rec)
  have small: "totalAmount (consumedOutputs (builtMessage ?b ?w)) < 2 ^ 64"
    by (simp add: builtMessage_def example_defs upt_rec)
  have a: "amount ?b = 60" by (simp add: example_defs)
  from C1_consumed_sum [OF ev] f cover r small a ev show ?thesis
    by (simp add: CreateOutput_def)
qed

subsection \<open>C2: the input selection\<close>

text \<open>
  C2. In a successful build the candidates are the given output alone if there is one,
  else, with the fake-input flag, a single output of exactly the target amount whose origin
  is the null message, else the outputs of the source wallet in their order. The consumed
  inputs are the greedy prefix of the candidates: a non-empty prefix in candidate order,
  no shorter non-empty prefix has a running sum that reaches the target, and the selection
  stops because the running sum has reached the target or the candidates are exhausted.
  The running sum is the \<^verbatim>\<open>uint64\<close> the source accumulates; it is the sum of the amounts
  as natural numbers whenever the amounts of the candidates sum to less than \<open>2 ^ 64\<close>.
\<close>

theorem C2_input_selection:
  assumes "Build te b w = (Inr m, w')"
  shows "\<exists>f cands. fromWallet b = Some f \<and>
     cands = (case outputToUse b of
                Some u \<Rightarrow> [u]
              | None \<Rightarrow>
                  if fakeInputs b
                  then [\<lparr>OutputID = zeroUTXOInputID, OutputMessageID = GetNullMessageID,
                         OutputType = OutputSigLockedSingleOutput,
                         OutputAddress = WalletAddress (wallets w f), OutputAmount = amount b\<rparr>]
                  else WalletOutputs (wallets w f)) \<and>
     consumedOutputs m = greedyPrefix (amount b) 0 cands \<and>
     consumedOutputs m = take (length (consumedOutputs m)) cands \<and>
     consumedOutputs m \<noteq> [] \<and>
     (\<forall>n. 0 < n \<and> n < length (consumedOutputs m) \<longrightarrow> sumAmounts (take n cands) < amount b) \<and>
     (amount b \<le> sumAmounts (consumedOutputs m) \<or> consumedOutputs m = cands) \<and>
     (totalAmount cands < 2 ^ 64 \<longrightarrow>
        (\<forall>n. unat (sumAmounts (take n cands)) = totalAmount (take n cands)))"
proof -
  from Build_consumed [OF assms] obtain f where f: "fromWallet b = Some f"
    and ne: "outputsThatCanBeConsumed b (wallets w f) \<noteq> []"
    and c: "consumedOutputs m = greedyPrefix (amount b) 0 (outputsThatCanBeConsumed b (wallets w f))"
    by blast
  let ?cands = "outputsThatCanBeConsumed b (wallets w f)"
  have cands: "?cands = (case outputToUse b of
                Some u \<Rightarrow> [u]
              | None \<Rightarrow>
                  if fakeInputs b
                  then [\<lparr>OutputID = zeroUTXOInputID, OutputMessageID = GetNullMessageID,
                         OutputType = OutputSigLockedSingleOutput,
                         OutputAddress = WalletAddress (wallets w f), OutputAmount = amount b\<rparr>]
                  else WalletOutputs (wallets w f))"
    by (simp add: outputsThatCanBeConsumed_def CreateOutput_def split: option.splits)
  have pre: "consumedOutputs m = take (length (consumedOutputs m)) ?cands"
    unfolding c by (rule greedyPrefix_take)
  have nonempty: "consumedOutputs m \<noteq> []"
    unfolding c using ne by (rule greedyPrefix_nonempty)
  have minimal: "\<forall>n. 0 < n \<and> n < length (consumedOutputs m) \<longrightarrow> sumAmounts (take n ?cands) < amount b"
    unfolding c using greedyPrefix_minimal [of _ "amount b" 0 ?cands] by simp
  have stop: "amount b \<le> sumAmounts (consumedOutputs m) \<or> consumedOutputs m = ?cands"
    unfolding c using greedyPrefix_stop [of "amount b" 0 ?cands] by simp
  have exact: "totalAmount ?cands < 2 ^ 64 \<longrightarrow>
        (\<forall>n. unat (sumAmounts (take n ?cands)) = totalAmount (take n ?cands))"
    by (simp add: unat_sumAmounts_take)
  from f cands c pre nonempty minimal stop exact show ?thesis by blast
qed

text \<open>Wallet 0 holds outputs of 30, 40 and 50 and 60 are sent: the first two are
  consumed.\<close>

theorem C2_input_selection_witness:
  "Build simpleCollaborators (exampleBuilder 60)
     (exampleWorld [fundedOutput 1 30, fundedOutput 2 40, fundedOutput 3 50]) =
     (Inr (builtMessage (exampleBuilder 60)
        (exampleWorld [fundedOutput 1 30, fundedOutput 2 40, fundedOutput 3 50])),
      exampleWorld [fundedOutput 1 30, fundedOutput 2 40, fundedOutput 3 50]) \<and>
   consumedOutputs (builtMessage (exampleBuilder 60)
     (exampleWorld [fundedOutput 1 30, fundedOutput 2 40, fundedOutput 3 50])) =
     [fundedOutput 1 30, fundedOutput 2 40]"
proof -
  let ?b = "exampleBuilder 60"
    and ?w = "exampleWorld [fundedOutput 1 30, fundedOutput 2 40, fundedOutput 3 50]"
  have ev: "Build simpleCollaborators ?b ?w = (Inr (builtMessage ?b ?w), ?w)"
    by (simp add: builtMessage_def example_defs upt_rec)
  have b: "fromWallet ?b = Some 0" "outputToUse ?b = None" "\<not> fakeInputs ?b" "amount ?b = 60"
    by (simp_all add: example_defs)
  have w: "WalletOutputs (wallets ?w 0) = [fundedOutput 1 30, fundedOutput 2 40, fundedOutput 3 50]"
    by (simp add: example_defs)
  from C2_input_selection [OF ev] b w
  have "consumedOutputs (builtMessage ?b ?w) = [fundedOutput 1 30, fundedOutput 2 40]"
    by (auto simp: fundedOutput_def CreateOutput_def)
  with ev show ?thesis by simp
qed

subsection \<open>C3: the declared outputs\<close>

text \<open>
  C3. The transaction request of a successful build, as it is handed to the signer,
  declares first the payment output to the destination address for the target amount, a
  dust-allowance output if the dust flag is set and a single output otherwise; and then
  one remainder output, a single output to the source address for the consumed sum minus
  the target, if the consumed sum exceeds the target, and no further output otherwise. The
  consumed sum is the \<^verbatim>\<open>uint64\<close> the source accumulates; it is the sum of the consumed
  amounts as natural numbers whenever that is below \<open>2 ^ 64\<close>. The inputs are the
  consumed outputs and the payload is the tag.
\<close>

theorem C3_declared_outputs:
  assumes "Build te b w = (Inr m, w')"
  shows "\<exists>f t tx req. fromWallet b = Some f \<and> toWallet b = Some t \<and>
     req = transactionRequest b (WalletAddress (wallets w f)) (WalletAddress (wallets w t))
             (outputsThatCanBeConsumed b (wallets w f)) \<and>
     TxBuild te req
       \<lparr>KeysAddress = WalletAddress (wallets w f), Keys = WalletKeyPair (wallets w f)\<rparr> = Some tx \<and>
     tbOutputs req =
       (if dustUnlock b then SigLockedDustAllowanceOutput (WalletAddress (wallets w t)) (amount b)
        else SigLockedSingleOutput (WalletAddress (wallets w t)) (amount b)) #
       (if amount b < sumAmounts (consumedOutputs m)
        then [SigLockedSingleOutput (WalletAddress (wallets w f))
                (sumAmounts (consumedOutputs m) - amount b)]
        else []) \<and>
     tbInputs req =
       map (\<lambda>u. \<lparr>InputAddress = WalletAddress (wallets w f), Input = OutputID u\<rparr>) (consumedOutputs m) \<and>
     tbPayload req = Some \<lparr>Index = indexation b, Data = None\<rparr> \<and>
     (totalAmount (consumedOutputs m) < 2 ^ 64 \<longrightarrow>
        unat (sumAmounts (consumedOutputs m)) = totalAmount (consumedOutputs m))"
proof -
  from Build_signed [OF assms] obtain f t tx where f: "fromWallet b = Some f"
    and t: "toWallet b = Some t"
    and tx: "TxBuild te (transactionRequest b (WalletAddress (wallets w f))
         (WalletAddress (wallets w t)) (outputsThatCanBeConsumed b (wallets w f)))
       \<lparr>KeysAddress = WalletAddress (wallets w f), Keys = WalletKeyPair (wallets w f)\<rparr> = Some tx"
    by blast
  from Build_consumed [OF assms] f
  have c: "consumedOutputs m = greedyPrefix (amount b) 0 (outputsThatCanBeConsumed b (wallets w f))"
    by auto
  have exact: "totalAmount (consumedOutputs m) < 2 ^ 64 \<longrightarrow>
        unat (sumAmounts (consumedOutputs m)) = totalAmount (consumedOutputs m)"
    by (simp add: unat_sumAmounts)
  show ?thesis
    using f t tx exact by (simp add: transactionRequest_eq c)
qed

text \<open>With the dust flag, 1000000 are sent from an output of 2500000: a dust-allowance
  output of 1000000 to \<open>Xb\<close> and a single output of 1500000 back to \<open>Xa\<close>.\<close>

theorem C3_declared_outputs_witness:
  "Build simpleCollaborators (DustAllowance (exampleBuilder 1000000))
     (exampleWorld [fundedOutput 1 2500000]) =
     (Inr (builtMessage (DustAllowance (exampleBuilder 1000000))
        (exampleWorld [fundedOutput 1 2500000])),
      exampleWorld [fundedOutput 1 2500000]) \<and>
   tbOutputs (transactionRequest (DustAllowance (exampleBuilder 1000000)) ''Xa'' ''Xb''
      [fundedOutput 1 2500000]) =
     [SigLockedDustAllowanceOutput ''Xb'' 1000000, SigLockedSingleOutput ''Xa'' 1500000]"
proof -
  let ?b = "DustAllowance (exampleBuilder 1000000)"
    and ?w = "exampleWorld [fundedOutput 1 2500000]"
  have ev: "Build simpleCollaborators ?b ?w = (Inr (builtMessage ?b ?w), ?w)"
    by (simp add: builtMessage_def example_defs upt_rec)
  have b: "fromWallet ?b = Some 0" "toWallet ?b = Some 1" "dustUnlock ?b" "amount ?b = 1000000"
    by (simp_all add: example_defs)
  have w: "WalletAddress (wallets ?w 0) = ''Xa''" "WalletAddress (wallets ?w 1) = ''Xb''"
    "outputsThatCanBeConsumed ?b (wallets ?w 0) = [fundedOutput 1 2500000]"
    by (simp_all add: example_defs)
  have c: "sumAmounts (consumedOutputs (builtMessage ?b ?w)) = 2500000"
    by (simp add: builtMessage_def example_defs upt_rec)
  from C3_declared_outputs [OF ev] b w c
  have "tbOutputs (transactionRequest ?b ''Xa'' ''Xb'' [fundedOutput 1 2500000]) =
     [SigLockedDustAllowanceOutput ''Xb'' 1000000, SigLockedSingleOutput ''Xa'' 1500000]"
    by auto
  with ev show ?thesis by simp
qed

subsection \<open>C8: the classification of the outputs\<close>

text \<open>
  C8, as stated, fails: when several outputs match a role, the one the loop visits last
  is classified, not the first. The loop visits the outputs of the transaction of the
  message in index order, which is the order the codec gave them and need not be the order
  in which \<^verbatim>\<open>Build\<close> added them. A dust-allowance transfer of 1000000 from wallet 0 to
  itself, out of an output of 2000000, has two outputs at \<open>Xa\<close> of 1000000 each, and both
  match the sent role. With the codec that keeps the order of the request and with the
  codec that puts the single output first alike, the sent output of the message is the
  output at index 1 of the transaction, not the output at index 0.
\<close>

theorem C8_counterexample:
  "\<not> isl (fst (Build simpleCollaborators (DustAllowance (ToWallet (Some 0) (exampleBuilder 1000000)))
      (exampleWorld [fundedOutput 1 2000000]))) \<and>
   GetTransaction (message (builtMessage (DustAllowance (ToWallet (Some 0) (exampleBuilder 1000000)))
      (exampleWorld [fundedOutput 1 2000000]))) =
     Some \<lparr>EssenceInputs = [[1]],
           EssenceOutputs = [SigLockedDustAllowanceOutput ''Xa'' 1000000,
                             SigLockedSingleOutput ''Xa'' 1000000],
           EssencePayload = Some \<lparr>Index = ''tag'', Data = None\<rparr>, UnlockBlocks = [[1]]\<rparr> \<and>
   NewOutput simpleCollaborators [77, 5]
     \<lparr>EssenceInputs = [[1]],
      EssenceOutputs = [SigLockedDustAllowanceOutput ''Xa'' 1000000,
                        SigLockedSingleOutput ''Xa'' 1000000],
      EssencePayload = Some \<lparr>Index = ''tag'', Data = None\<rparr>, UnlockBlocks = [[1]]\<rparr> 0 =
     Some (CreateOutput [77, 5, 0] [77, 5] OutputSigLockedDustAllowanceOutput ''Xa'' 1000000) \<and>
   NewOutput simpleCollaborators [77, 5]
     \<lparr>EssenceInputs = [[1]],
      EssenceOutputs = [SigLockedDustAllowanceOutput ''Xa'' 1000000,
                        SigLockedSingleOutput ''Xa'' 1000000],
      EssencePayload = Some \<lparr>Index = ''tag'', Data = None\<rparr>, UnlockBlocks = [[1]]\<rparr> 1 =
     Some (CreateOutput [77, 5, 1] [77, 5] OutputSigLockedSingleOutput ''Xa'' 1000000) \<and>
   isSent ''Xa'' 1000000 (CreateOutput [77, 5, 0] [77, 5] OutputSigLockedDustAllowanceOutput ''Xa'' 1000000) \<and>
   isSent ''Xa'' 1000000 (CreateOutput [77, 5, 1] [77, 5] OutputSigLockedSingleOutput ''Xa'' 1000000) \<and>
   sentOutput (builtMessage (DustAllowance (ToWallet (Some 0) (exampleBuilder 1000000)))
      (exampleWorld [fundedOutput 1 2000000])) =
     Some (CreateOutput [77, 5, 1] [77, 5] OutputSigLockedSingleOutput ''Xa'' 1000000) \<and>
   remainderOutput (builtMessage (DustAllowance (ToWallet (Some 0) (exampleBuilder 1000000)))
      (exampleWorld [fundedOutput 1 2000000])) = None \<and>
   \<not> isl (fst (Build orderingCollaborators (DustAllowance (ToWallet (Some 0) (exampleBuilder 1000000)))
      (exampleWorld [fundedOutput 1 2000000]))) \<and>
   GetTransaction (message (orderedMessage (DustAllowance (ToWallet (Some 0) (exampleBuilder 1000000)))
      (exampleWorld [fundedOutput 1 2000000]))) =
     Some \<lparr>EssenceInputs = [[1]],
           EssenceOutputs = [SigLockedSingleOutput ''Xa'' 1000000,
                             SigLockedDustAllowanceOutput ''Xa'' 1000000],
           EssencePayload = Some \<lparr>Index = ''tag'', Data = None\<rparr>, UnlockBlocks = [[1]]\<rparr> \<and>
   NewOutput orderingCollaborators [77, 5]
     \<lparr>EssenceInputs = [[1]],
      EssenceOutputs = [SigLockedSingleOutput ''Xa'' 1000000,
                        SigLockedDustAllowanceOutput ''Xa'' 1000000],
      EssencePayload = Some \<lparr>Index = ''tag'', Data = None\<rparr>, UnlockBlocks = [[1]]\<rparr> 0 =
     Some (CreateOutput [77, 5, 0] [77, 5] OutputSigLockedSingleOutput ''Xa'' 1000000) \<and>
   NewOutput orderingCollaborators [77, 5]
     \<lparr>EssenceInputs = [[1]],
      EssenceOutputs = [SigLockedSingleOutput ''Xa'' 1000000,
                        SigLockedDustAllowanceOutput ''Xa'' 1000000],
      EssencePayload = Some \<lparr>Index = ''tag'', Data = None\<rparr>, UnlockBlocks = [[1]]\<rparr> 1 =
     Some (CreateOutput [77, 5, 1] [77, 5] OutputSigLockedDustAllowanceOutput ''Xa'' 1000000) \<and>
   isSent ''Xa'' 1000000 (CreateOutput [77, 5, 0] [77, 5] OutputSigLockedSingleOutput ''Xa'' 1000000) \<and>
   isSent ''Xa'' 1000000 (CreateOutput [77, 5, 1] [77, 5] OutputSigLockedDustAllowanceOutput ''Xa'' 1000000) \<and>
   sentOutput (orderedMessage (DustAllowance (ToWallet (Some 0) (exampleBuilder 1000000)))
      (exampleWorld [fundedOutput 1 2000000])) =
     Some (CreateOutput [77, 5, 1] [77, 5] OutputSigLockedDustAllowanceOutput ''Xa'' 1000000) \<and>
   remainderOutput (orderedMessage (DustAllowance (ToWallet (Some 0) (exampleBuilder 1000000)))
      (exampleWorld [fundedOutput 1 2000000])) = None"
  by (simp add: builtMessage_def orderedMessage_def example_defs upt_rec)

text \<open>
  C8, amended. A successful build classifies at most one sent output and at most one
  remainder output. Let the outputs be those of the transaction of the message, in index
  order, as the codec returned them and as the loop visits them (not the order in which
  \<^verbatim>\<open>Build\<close> added them to the request, which the codec need not keep). The sent output is
  the last of them at the destination address with the target amount: it matches, and no
  output after it does. The remainder output is the last of them that does not match the
  sent role and is at the source address with the computed remainder, considered only
  when the remainder is greater than zero. Either is absent exactly when no output
  matches. This holds for every codec.
\<close>

theorem C8_classification:
  assumes "Build te b w = (Inr m, w')"
  shows "\<exists>f t mtx outs. fromWallet b = Some f \<and> toWallet b = Some t \<and>
     GetTransaction (message m) = Some mtx \<and>
     those (map (\<lambda>i. NewOutput te (GetMessageID (message m)) mtx (of_nat i))
        [0..<length (EssenceOutputs mtx)]) = Some outs \<and>
     sentOutput m = lastMatch (isSent (WalletAddress (wallets w t)) (amount b)) outs \<and>
     remainderOutput m =
       lastMatch (isRemainder (WalletAddress (wallets w f)) (WalletAddress (wallets w t)) (amount b)
         (remainderAmount (amount b) (sumAmounts (consumedOutputs m)))) outs \<and>
     (\<forall>s. sentOutput m = Some s \<longrightarrow>
        (\<exists>pre post. outs = pre @ s # post \<and>
           isSent (WalletAddress (wallets w t)) (amount b) s \<and>
           (\<forall>out\<in>set post. \<not> isSent (WalletAddress (wallets w t)) (amount b) out))) \<and>
     (sentOutput m = None \<longrightarrow>
        (\<forall>out\<in>set outs. \<not> isSent (WalletAddress (wallets w t)) (amount b) out)) \<and>
     (\<forall>r. remainderOutput m = Some r \<longrightarrow>
        (\<exists>pre post. outs = pre @ r # post \<and>
           isRemainder (WalletAddress (wallets w f)) (WalletAddress (wallets w t)) (amount b)
             (remainderAmount (amount b) (sumAmounts (consumedOutputs m))) r \<and>
           (\<forall>out\<in>set post.
              \<not> isRemainder (WalletAddress (wallets w f)) (WalletAddress (wallets w t)) (amount b)
                  (remainderAmount (amount b) (sumAmounts (consumedOutputs m))) out))) \<and>
     (remainderOutput m = None \<longrightarrow>
        (\<forall>out\<in>set outs.
           \<not> isRemainder (WalletAddress (wallets w f)) (WalletAddress (wallets w t)) (amount b)
               (remainderAmount (amount b) (sumAmounts (consumedOutputs m))) out))"
proof -
  from Build_classified [OF assms] obtain f t mtx where f: "fromWallet b = Some f"
    and t: "toWallet b = Some t" and mtx: "GetTransaction (message m) = Some mtx"
    and cl: "classifyOutputs te (GetMessageID (message m)) mtx (WalletAddress (wallets w f))
       (WalletAddress (wallets w t)) (amount b)
       (remainderAmount (amount b) (sumAmounts (consumedOutputs m)))
       [0..<length (EssenceOutputs mtx)] (None, None) = Inr (sentOutput m, remainderOutput m)"
    by blast
  let ?S = "isSent (WalletAddress (wallets w t)) (amount b)"
  let ?R = "isRemainder (WalletAddress (wallets w f)) (WalletAddress (wallets w t)) (amount b)
         (remainderAmount (amount b) (sumAmounts (consumedOutputs m)))"
  from classifyOutputs_Inr [OF cl] obtain outs where
    outs: "those (map (\<lambda>i. NewOutput te (GetMessageID (message m)) mtx (of_nat i))
        [0..<length (EssenceOutputs mtx)]) = Some outs"
    and s: "sentOutput m = (case lastMatch ?S outs of None \<Rightarrow> None | Some x \<Rightarrow> Some x)"
    and r: "remainderOutput m = (case lastMatch ?R outs of None \<Rightarrow> None | Some x \<Rightarrow> Some x)"
    by blast
  from s have s': "sentOutput m = lastMatch ?S outs"
    by (simp split: option.splits)
  from r have r': "remainderOutput m = lastMatch ?R outs"
    by (simp split: option.splits)
  have s1: "\<forall>x. sentOutput m = Some x \<longrightarrow>
      (\<exists>pre post. outs = pre @ x # post \<and> ?S x \<and> (\<forall>out\<in>set post. \<not> ?S out))"
  proof (intro allI impI)
    fix x
    assume "sentOutput m = Some x"
    with s' have "lastMatch ?S outs = Some x" by simp
    from lastMatch_split [OF this]
    show "\<exists>pre post. outs = pre @ x # post \<and> ?S x \<and> (\<forall>out\<in>set post. \<not> ?S out)" .
  qed
  have s0: "sentOutput m = None \<longrightarrow> (\<forall>out\<in>set outs. \<not> ?S out)"
    unfolding s' by (simp add: lastMatch_None)
  have r1: "\<forall>x. remainderOutput m = Some x \<longrightarrow>
      (\<exists>pre post. outs = pre @ x # post \<and> ?R x \<and> (\<forall>out\<in>set post. \<not> ?R out))"
  proof (intro allI impI)
    fix x
    assume "remainderOutput m = Some x"
    with r' have "lastMatch ?R outs = Some x" by simp
    from lastMatch_split [OF this]
    show "\<exists>pre post. outs = pre @ x # post \<and> ?R x \<and> (\<forall>out\<in>set post. \<not> ?R out)" .
  qed
  have r0: "remainderOutput m = None \<longrightarrow> (\<forall>out\<in>set outs. \<not> ?R out)"
    unfolding r' by (simp add: lastMatch_None)
  from f t mtx outs s' r' s1 s0 r1 r0
  have "fromWallet b = Some f \<and> toWallet b = Some t \<and>
     GetTransaction (message m) = Some mtx \<and>
     those (map (\<lambda>i. NewOutput te (GetMessageID (message m)) mtx (of_nat i))
        [0..<length (EssenceOutputs mtx)]) = Some outs \<and>
     sentOutput m = lastMatch ?S outs \<and>
     remainderOutput m = lastMatch ?R outs \<and>
     (\<forall>s. sentOutput m = Some s \<longrightarrow>
        (\<exists>pre post. outs = pre @ s # post \<and> ?S s \<and> (\<forall>out\<in>set post. \<not> ?S out))) \<and>
     (sentOutput m = None \<longrightarrow> (\<forall>out\<in>set outs. \<not> ?S out)) \<and>
     (\<forall>r. remainderOutput m = Some r \<longrightarrow>
        (\<exists>pre post. outs = pre @ r # post \<and> ?R r \<and> (\<forall>out\<in>set post. \<not> ?R out))) \<and>
     (remainderOutput m = None \<longrightarrow> (\<forall>out\<in>set outs. \<not> ?R out))"
    by (intro conjI)
  then show ?thesis
    by (intro exI)
qed

text \<open>In the scenario of the specification (100 held, 60 sent) the output at index 0 is
  the sent output and the output at index 1 the remainder output.\<close>

theorem C8_classification_witness:
  "Build simpleCollaborators (exampleBuilder 60) (exampleWorld [fundedOutput 1 100]) =
     (Inr (builtMessage (exampleBuilder 60) (exampleWorld [fundedOutput 1 100])),
      exampleWorld [fundedOutput 1 100]) \<and>
   sentOutput (builtMessage (exampleBuilder 60) (exampleWorld [fundedOutput 1 100])) =
     Some (CreateOutput [77, 5, 0] [77, 5] OutputSigLockedSingleOutput ''Xb'' 60) \<and>
   remainderOutput (builtMessage (exampleBuilder 60) (exampleWorld [fundedOutput 1 100])) =
     Some (CreateOutput [77, 5, 1] [77, 5] OutputSigLockedSingleOutput ''Xa'' 40)"
proof -
  let ?b = "exampleBuilder 60" and ?w = "exampleWorld [fundedOutput 1 100]"
  have ev: "Build simpleCollaborators ?b ?w = (Inr (builtMessage ?b ?w), ?w)"
    by (simp add: builtMessage_def example_defs upt_rec)
  have b: "fromWallet ?b = Some 0" "toWallet ?b = Some 1" "amount ?b = 60"
    by (simp_all add: example_defs)
  have w: "WalletAddress (wallets ?w 0) = ''Xa''" "WalletAddress (wallets ?w 1) = ''Xb''"
    by (simp_all add: example_defs)
  have msg: "GetTransaction (message (builtMessage ?b ?w)) =
      Some \<lparr>EssenceInputs = [[1]],
            EssenceOutputs = [SigLockedSingleOutput ''Xb'' 60, SigLockedSingleOutput ''Xa'' 40],
            EssencePayload = Some \<lparr>Index = ''tag'', Data = None\<rparr>, UnlockBlocks = [[1]]\<rparr>"
    "GetMessageID (message (builtMessage ?b ?w)) = [77, 5]"
    "sumAmounts (consumedOutputs (builtMessage ?b ?w)) = 100"
    by (simp_all add: builtMessage_def example_defs upt_rec)
  from C8_classification [OF ev] obtain f t mtx outs where
    c: "fromWallet ?b = Some f" "toWallet ?b = Some t"
      "GetTransaction (message (builtMessage ?b ?w)) = Some mtx"
      "those (map (\<lambda>i. NewOutput simpleCollaborators (GetMessageID (message (builtMessage ?b ?w)))
          mtx (of_nat i)) [0..<length (EssenceOutputs mtx)]) = Some outs"
      "sentOutput (builtMessage ?b ?w) = lastMatch (isSent (WalletAddress (wallets ?w t)) (amount ?b)) outs"
      "remainderOutput (builtMessage ?b ?w) =
         lastMatch (isRemainder (WalletAddress (wallets ?w f)) (WalletAddress (wallets ?w t)) (amount ?b)
           (remainderAmount (amount ?b) (sumAmounts (consumedOutputs (builtMessage ?b ?w))))) outs"
    by (elim exE conjE) (rule that)
  from c b w msg
  have "sentOutput (builtMessage ?b ?w) =
       Some (CreateOutput [77, 5, 0] [77, 5] OutputSigLockedSingleOutput ''Xb'' 60) \<and>
     remainderOutput (builtMessage ?b ?w) =
       Some (CreateOutput [77, 5, 1] [77, 5] OutputSigLockedSingleOutput ''Xa'' 40)"
    by (auto simp: upt_rec simpleCollaborators_def simpleNewOutput_def CreateOutput_def
        OutputSigLockedSingleOutput_def lastMatch_def isSent_def isRemainder_def
        remainderAmount_def)
  with ev show ?thesis by simp
qed

subsection \<open>C4: the effect of booking on the wallets\<close>

text \<open>
  C4. With the wallet operations of the specification, booking a message that is not yet
  booked leaves in the source wallet the outputs it held that are not consumed inputs,
  followed by the sent output if the destination is the source wallet itself and one was
  identified, followed by the remainder output if one was identified; it appends the sent
  output, if one was identified, to a destination wallet other than the source; and it
  leaves every other wallet as it was. \<^verbatim>\<open>Store\<close>, \<^verbatim>\<open>Build\<close> and \<^verbatim>\<open>BuildIndexation\<close> leave
  the wallets as they were.
\<close>

theorem C4_wallet_effects:
  assumes "BookSpents te = specBookSpents" and "BookOutput te = specBookOutput"
    and "\<not> booked m" and "fromWallet (builder m) = Some f" and "toWallet (builder m) = Some t"
  shows "\<exists>m' w'. BookOnWallets te m w = (Inr m', w') \<and>
     WalletOutputs (wallets w' f) =
       filter (\<lambda>u. OutputID u \<notin> OutputID ` set (consumedOutputs m)) (WalletOutputs (wallets w f)) @
       (if t = f then (case sentOutput m of None \<Rightarrow> [] | Some u \<Rightarrow> [u]) else []) @
       (case remainderOutput m of None \<Rightarrow> [] | Some u \<Rightarrow> [u]) \<and>
     (t \<noteq> f \<longrightarrow> WalletOutputs (wallets w' t) =
        WalletOutputs (wallets w t) @ (case sentOutput m of None \<Rightarrow> [] | Some u \<Rightarrow> [u])) \<and>
     (\<forall>r. r \<noteq> f \<and> r \<noteq> t \<longrightarrow> wallets w' r = wallets w r) \<and>
     wallets (snd (Store te m w)) = wallets w \<and>
     snd (Build te b w) = w \<and> snd (BuildIndexation te b w) = w"
proof -
  have store: "wallets (snd (Store te m w)) = wallets w"
    by (simp add: Store_def split: prod.splits)
  show ?thesis
  proof (cases "t = f")
    case True
    with assms store show ?thesis
      by (simp add: BookOnWallets_def callBookSpents_def callBookOutput_def specBookSpents_def specBookOutput_def
          Build_world BuildIndexation_world split: option.splits)
  next
    case False
    with assms store show ?thesis
      by (simp add: BookOnWallets_def callBookSpents_def callBookOutput_def specBookSpents_def specBookOutput_def
          Build_world BuildIndexation_world split: option.splits)
  qed
qed

text \<open>The scenario of the specification: after booking, wallet 0 has lost its output of
  100 and holds the remainder of 40, and wallet 1 holds the sent output of 60.\<close>

theorem C4_wallet_effects_witness:
  "WalletOutputs (wallets (snd (BookOnWallets simpleCollaborators
       (builtMessage (exampleBuilder 60) (exampleWorld [fundedOutput 1 100]))
       (exampleWorld [fundedOutput 1 100]))) 0) =
     [CreateOutput [77, 5, 1] [77, 5] OutputSigLockedSingleOutput ''Xa'' 40] \<and>
   WalletOutputs (wallets (snd (BookOnWallets simpleCollaborators
       (builtMessage (exampleBuilder 60) (exampleWorld [fundedOutput 1 100]))
       (exampleWorld [fundedOutput 1 100]))) 1) =
     [CreateOutput [77, 5, 0] [77, 5] OutputSigLockedSingleOutput ''Xb'' 60]"
proof -
  let ?w = "exampleWorld [fundedOutput 1 100]"
  let ?m = "builtMessage (exampleBuilder 60) ?w"
  have te: "BookSpents simpleCollaborators = specBookSpents"
    "BookOutput simpleCollaborators = specBookOutput"
    by (simp_all add: simpleCollaborators_def)
  have m: "\<not> booked ?m" "fromWallet (builder ?m) = Some 0" "toWallet (builder ?m) = Some 1"
    "consumedOutputs ?m = [fundedOutput 1 100]"
    "sentOutput ?m = Some (CreateOutput [77, 5, 0] [77, 5] OutputSigLockedSingleOutput ''Xb'' 60)"
    "remainderOutput ?m = Some (CreateOutput [77, 5, 1] [77, 5] OutputSigLockedSingleOutput ''Xa'' 40)"
    by (simp_all add: builtMessage_def example_defs upt_rec)
  have w: "WalletOutputs (wallets ?w 0) = [fundedOutput 1 100]" "WalletOutputs (wallets ?w 1) = []"
    by (simp_all add: example_defs)
  from C4_wallet_effects [OF te m(1,2,3), where w = ?w and b = "exampleBuilder 60"]
  obtain m' w' where bk: "BookOnWallets simpleCollaborators ?m ?w = (Inr m', w')"
    and src: "WalletOutputs (wallets w' 0) =
       filter (\<lambda>u. OutputID u \<notin> OutputID ` set (consumedOutputs ?m)) (WalletOutputs (wallets ?w 0)) @
       (if (1::nat) = 0 then (case sentOutput ?m of None \<Rightarrow> [] | Some u \<Rightarrow> [u]) else []) @
       (case remainderOutput ?m of None \<Rightarrow> [] | Some u \<Rightarrow> [u])"
    and dst: "(1::nat) \<noteq> 0 \<longrightarrow> WalletOutputs (wallets w' 1) =
        WalletOutputs (wallets ?w 1) @ (case sentOutput ?m of None \<Rightarrow> [] | Some u \<Rightarrow> [u])"
    by blast
  from src m(4,6) w(1)
  have "WalletOutputs (wallets w' 0) =
      [CreateOutput [77, 5, 1] [77, 5] OutputSigLockedSingleOutput ''Xa'' 40]"
    by (simp add: fundedOutput_def CreateOutput_def)
  moreover from dst m(5) w(2)
  have "WalletOutputs (wallets w' 1) =
      [CreateOutput [77, 5, 0] [77, 5] OutputSigLockedSingleOutput ''Xb'' 60]"
    by simp
  moreover from bk have "snd (BookOnWallets simpleCollaborators ?m ?w) = w'"
    by simp
  ultimately show ?thesis by simp
qed

subsection \<open>C5: the one-shot transitions\<close>

text \<open>
  C5. \<^verbatim>\<open>Store\<close> succeeds on a message that is not stored, and then the message is stored;
  \<^verbatim>\<open>Store\<close> on a stored message fails with the lifecycle failure and leaves the state as
  it was. \<^verbatim>\<open>BookOnWallets\<close> succeeds only on a message that is not booked, and then the
  message is booked; on a booked message it fails with the lifecycle failure and leaves the
  wallets and the store as they were. Neither operation resets the flag of the other, so
  each flag goes from unset to set at most once.
\<close>

theorem C5_one_shot:
  "(storedMessageID m = None \<longrightarrow> \<not> isl (fst (Store te m w))) \<and>
   (Store te m w = (Inr m', w') \<longrightarrow>
      storedMessageID m = None \<and> storedMessageID m' \<noteq> None \<and> booked m' = booked m \<and>
      (\<forall>w2. Store te m' w2 = (Inl AlreadyStored, w2))) \<and>
   (BookOnWallets te m w = (Inr m', w') \<longrightarrow>
      \<not> booked m \<and> booked m' \<and> storedMessageID m' = storedMessageID m \<and>
      (\<forall>w2. BookOnWallets te m' w2 = (Inl AlreadyBooked, w2))) \<and>
   (storedMessageID m \<noteq> None \<longrightarrow> Store te m w = (Inl AlreadyStored, w)) \<and>
   (booked m \<longrightarrow> BookOnWallets te m w = (Inl AlreadyBooked, w)) \<and>
   category AlreadyStored = LifecycleReuseViolation \<and>
   category AlreadyBooked = LifecycleReuseViolation"
proof -
  have s1: "storedMessageID m = None \<longrightarrow> \<not> isl (fst (Store te m w))"
    by (simp add: Store_def split: prod.splits)
  have s2: "Store te m w = (Inr m', w') \<longrightarrow>
      storedMessageID m = None \<and> storedMessageID m' \<noteq> None \<and> booked m' = booked m \<and>
      (\<forall>w2. Store te m' w2 = (Inl AlreadyStored, w2))"
    by (auto simp: Store_def split: if_splits prod.splits)
  have b2: "BookOnWallets te m w = (Inr m', w') \<longrightarrow>
      \<not> booked m \<and> booked m' \<and> storedMessageID m' = storedMessageID m \<and>
      (\<forall>w2. BookOnWallets te m' w2 = (Inl AlreadyBooked, w2))"
    by (auto simp: BookOnWallets_def callBookSpents_def callBookOutput_def
        split: if_splits option.splits)
  have s3: "storedMessageID m \<noteq> None \<longrightarrow> Store te m w = (Inl AlreadyStored, w)"
    by (simp add: Store_def)
  have b3: "booked m \<longrightarrow> BookOnWallets te m w = (Inl AlreadyBooked, w)"
    by (simp add: BookOnWallets_def)
  from s1 s2 b2 s3 b3 show ?thesis by simp
qed

text \<open>The message of the scenario is stored and booked once; the second call of either
  operation fails and returns the state it was given.\<close>

theorem C5_one_shot_witness:
  "Store simpleCollaborators (builtMessage (exampleBuilder 60) (exampleWorld [fundedOutput 1 100]))
     (exampleWorld [fundedOutput 1 100]) =
     (Inr ((builtMessage (exampleBuilder 60) (exampleWorld [fundedOutput 1 100]))
             \<lparr>storedMessageID := Some [77, 5]\<rparr>),
      (exampleWorld [fundedOutput 1 100])
        \<lparr>storage := [message (builtMessage (exampleBuilder 60) (exampleWorld [fundedOutput 1 100]))]\<rparr>) \<and>
   Store simpleCollaborators
     ((builtMessage (exampleBuilder 60) (exampleWorld [fundedOutput 1 100]))
        \<lparr>storedMessageID := Some [77, 5]\<rparr>)
     ((exampleWorld [fundedOutput 1 100])
        \<lparr>storage := [message (builtMessage (exampleBuilder 60) (exampleWorld [fundedOutput 1 100]))]\<rparr>) =
     (Inl AlreadyStored,
      (exampleWorld [fundedOutput 1 100])
        \<lparr>storage := [message (builtMessage (exampleBuilder 60) (exampleWorld [fundedOutput 1 100]))]\<rparr>) \<and>
   BookOnWallets simpleCollaborators
     ((builtMessage (exampleBuilder 60) (exampleWorld [fundedOutput 1 100]))\<lparr>booked := True\<rparr>)
     (exampleWorld [fundedOutput 1 100]) =
     (Inl AlreadyBooked, exampleWorld [fundedOutput 1 100])"
proof -
  let ?w = "exampleWorld [fundedOutput 1 100]"
  let ?m = "builtMessage (exampleBuilder 60) ?w"
  have id: "GetMessageID (message ?m) = [77, 5]" "storedMessageID ?m = None"
    by (simp_all add: builtMessage_def example_defs upt_rec)
  have st: "storage ?w = []"
    by (simp add: exampleWorld_def)
  have ev: "Store simpleCollaborators ?m ?w =
      (Inr (?m\<lparr>storedMessageID := Some [77, 5]\<rparr>), ?w\<lparr>storage := [message ?m]\<rparr>)"
    using id st by (simp add: Store_def simpleCollaborators_def specStoreMessage_def)
  have bk: "booked (?m\<lparr>booked := True\<rparr>)"
    by simp
  from C5_one_shot [of ?m simpleCollaborators ?w "?m\<lparr>storedMessageID := Some [77, 5]\<rparr>"
      "?w\<lparr>storage := [message ?m]\<rparr>"] ev
  have again: "Store simpleCollaborators (?m\<lparr>storedMessageID := Some [77, 5]\<rparr>)
      (?w\<lparr>storage := [message ?m]\<rparr>) = (Inl AlreadyStored, ?w\<lparr>storage := [message ?m]\<rparr>)"
    by blast
  from C5_one_shot [of "?m\<lparr>booked := True\<rparr>" simpleCollaborators ?w] bk
  have booked: "BookOnWallets simpleCollaborators (?m\<lparr>booked := True\<rparr>) ?w = (Inl AlreadyBooked, ?w)"
    by blast
  from ev again booked show ?thesis by simp
qed

subsection \<open>C10: booking is unconditional\<close>

text \<open>
  C10. Booking a message that is not yet booked hands the consumed outputs of the message,
  whatever they are, to the spend-booking of the source wallet, then the sent output to the
  credit-booking of the destination wallet and the remainder output to the credit-booking
  of the source wallet, whether they are nil or not; this holds for every implementation
  of the two wallet operations. The consumed outputs of a build from a given output are
  that output, and those of a build with fake inputs are the fake output, whether or not
  the source wallet holds them.
\<close>

theorem C10_unconditional_booking:
  "(\<not> booked m \<and> fromWallet (builder m) = Some f \<and> toWallet (builder m) = Some t \<longrightarrow>
      BookOnWallets te m w =
        (Inr (m\<lparr>booked := True\<rparr>),
         w\<lparr>wallets :=
             ((wallets w)(f := BookSpents te (wallets w f) (consumedOutputs m),
                t := BookOutput te
                       (((wallets w)(f := BookSpents te (wallets w f) (consumedOutputs m))) t)
                       (sentOutput m)))
             (f := BookOutput te
                     (((wallets w)(f := BookSpents te (wallets w f) (consumedOutputs m),
                         t := BookOutput te
                                (((wallets w)(f := BookSpents te (wallets w f) (consumedOutputs m))) t)
                                (sentOutput m))) f)
                     (remainderOutput m))\<rparr>)) \<and>
   (Build te b w0 = (Inr m, w1) \<longrightarrow>
      (\<forall>u. outputToUse b = Some u \<longrightarrow> consumedOutputs m = [u]) \<and>
      (outputToUse b = None \<and> fakeInputs b \<longrightarrow>
         (\<exists>s. fromWallet b = Some s \<and>
            consumedOutputs m =
              [CreateOutput zeroUTXOInputID GetNullMessageID OutputSigLockedSingleOutput
                 (WalletAddress (wallets w0 s)) (amount b)])))"
proof -
  have book: "\<not> booked m \<and> fromWallet (builder m) = Some f \<and> toWallet (builder m) = Some t \<longrightarrow>
      BookOnWallets te m w =
        (Inr (m\<lparr>booked := True\<rparr>),
         w\<lparr>wallets :=
             ((wallets w)(f := BookSpents te (wallets w f) (consumedOutputs m),
                t := BookOutput te
                       (((wallets w)(f := BookSpents te (wallets w f) (consumedOutputs m))) t)
                       (sentOutput m)))
             (f := BookOutput te
                     (((wallets w)(f := BookSpents te (wallets w f) (consumedOutputs m),
                         t := BookOutput te
                                (((wallets w)(f := BookSpents te (wallets w f) (consumedOutputs m))) t)
                                (sentOutput m))) f)
                     (remainderOutput m))\<rparr>)"
    by (simp add: BookOnWallets_def callBookSpents_def callBookOutput_def)
  have build: "Build te b w0 = (Inr m, w1) \<longrightarrow>
      (\<forall>u. outputToUse b = Some u \<longrightarrow> consumedOutputs m = [u]) \<and>
      (outputToUse b = None \<and> fakeInputs b \<longrightarrow>
         (\<exists>s. fromWallet b = Some s \<and>
            consumedOutputs m =
              [CreateOutput zeroUTXOInputID GetNullMessageID OutputSigLockedSingleOutput
                 (WalletAddress (wallets w0 s)) (amount b)]))"
    using Build_override Build_fake by blast
  from book build show ?thesis by (rule conjI)
qed

text \<open>A build with fake inputs of 50 from an empty wallet 0: the fake output, which the
  wallet never held, is handed to the spend-booking, and the remainder output handed to
  the credit-booking is nil.\<close>

theorem C10_unconditional_booking_witness:
  "consumedOutputs (builtMessage (FakeInputs (exampleBuilder 50)) (exampleWorld [])) =
     [CreateOutput zeroUTXOInputID GetNullMessageID OutputSigLockedSingleOutput ''Xa'' 50] \<and>
   remainderOutput (builtMessage (FakeInputs (exampleBuilder 50)) (exampleWorld [])) = None \<and>
   BookOnWallets simpleCollaborators (builtMessage (FakeInputs (exampleBuilder 50)) (exampleWorld []))
      (exampleWorld []) =
     (Inr ((builtMessage (FakeInputs (exampleBuilder 50)) (exampleWorld []))\<lparr>booked := True\<rparr>),
      (exampleWorld [])
        \<lparr>wallets := (wallets (exampleWorld []))
           (1 := \<lparr>WalletAddress = ''Xb'', WalletKeyPair = [2],
                  WalletOutputs = [CreateOutput [77, 5, 0] [77, 5] OutputSigLockedSingleOutput ''Xb'' 50]\<rparr>)\<rparr>)"
proof -
  let ?b = "FakeInputs (exampleBuilder 50)" and ?w = "exampleWorld []"
  let ?m = "builtMessage ?b ?w"
  have ev: "Build simpleCollaborators ?b ?w = (Inr ?m, ?w)"
    by (simp add: builtMessage_def example_defs upt_rec)
  have b: "outputToUse ?b = None" "fakeInputs ?b" "fromWallet ?b = Some 0" "amount ?b = 50"
    by (simp_all add: example_defs)
  have m: "\<not> booked ?m" "fromWallet (builder ?m) = Some 0" "toWallet (builder ?m) = Some 1"
    "sentOutput ?m = Some (CreateOutput [77, 5, 0] [77, 5] OutputSigLockedSingleOutput ''Xb'' 50)"
    "remainderOutput ?m = None"
    by (simp_all add: builtMessage_def example_defs upt_rec)
  have w: "wallets ?w 0 = \<lparr>WalletAddress = ''Xa'', WalletKeyPair = [1], WalletOutputs = []\<rparr>"
    "wallets ?w 1 = \<lparr>WalletAddress = ''Xb'', WalletKeyPair = [2], WalletOutputs = []\<rparr>"
    by (simp_all add: exampleWorld_def)
  from C10_unconditional_booking [of ?m 0 1 simpleCollaborators ?w ?b ?w ?w] ev b m(1,2,3)
  have c: "consumedOutputs ?m =
      [CreateOutput zeroUTXOInputID GetNullMessageID OutputSigLockedSingleOutput
         (WalletAddress (wallets ?w 0)) 50]"
    and bk: "BookOnWallets simpleCollaborators ?m ?w =
        (Inr (?m\<lparr>booked := True\<rparr>),
         ?w\<lparr>wallets :=
             ((wallets ?w)(0 := BookSpents simpleCollaborators (wallets ?w 0) (consumedOutputs ?m),
                1 := BookOutput simpleCollaborators
                       (((wallets ?w)(0 := BookSpents simpleCollaborators (wallets ?w 0) (consumedOutputs ?m))) 1)
                       (sentOutput ?m)))
             (0 := BookOutput simpleCollaborators
                     (((wallets ?w)(0 := BookSpents simpleCollaborators (wallets ?w 0) (consumedOutputs ?m),
                         1 := BookOutput simpleCollaborators
                                (((wallets ?w)(0 := BookSpents simpleCollaborators (wallets ?w 0) (consumedOutputs ?m))) 1)
                                (sentOutput ?m))) 0)
                     (remainderOutput ?m))\<rparr>)"
    by auto
  have upd: "((wallets ?w)(0 := BookSpents simpleCollaborators (wallets ?w 0) (consumedOutputs ?m),
                1 := BookOutput simpleCollaborators
                       (((wallets ?w)(0 := BookSpents simpleCollaborators (wallets ?w 0) (consumedOutputs ?m))) 1)
                       (sentOutput ?m)))
             (0 := BookOutput simpleCollaborators
                     (((wallets ?w)(0 := BookSpents simpleCollaborators (wallets ?w 0) (consumedOutputs ?m),
                         1 := BookOutput simpleCollaborators
                                (((wallets ?w)(0 := BookSpents simpleCollaborators (wallets ?w 0) (consumedOutputs ?m))) 1)
                                (sentOutput ?m))) 0)
                     (remainderOutput ?m)) =
      (wallets ?w)(1 := \<lparr>WalletAddress = ''Xb'', WalletKeyPair = [2],
                  WalletOutputs = [CreateOutput [77, 5, 0] [77, 5] OutputSigLockedSingleOutput ''Xb'' 50]\<rparr>)"
    using m(4,5) c w
    by (auto simp: simpleCollaborators_def specBookSpents_def specBookOutput_def fun_eq_iff)
  from c w(1) m(5) bk upd show ?thesis by simp
qed

subsection \<open>C6: insufficient funds\<close>

text \<open>
  C6, as stated, fails: candidates that cannot cover the target do not make the build fail.
  Wallet 0 holds outputs of 30 and 20 and the target is 60; the build succeeds.
\<close>

theorem C6_counterexample:
  "totalAmount (outputsThatCanBeConsumed (exampleBuilder 60)
      (wallets (exampleWorld [fundedOutput 1 30, fundedOutput 2 20]) 0)) = 50 \<and>
   unat (amount (exampleBuilder 60)) = 60 \<and>
   \<not> isl (fst (Build simpleCollaborators (exampleBuilder 60)
      (exampleWorld [fundedOutput 1 30, fundedOutput 2 20])))"
  by (simp add: example_defs upt_rec)

text \<open>
  C6, amended. The build fails with a failure of the insufficient-funds class exactly when
  the amount is positive, both wallets are set and the candidate list is empty, which is
  when no output is given, the fake-input flag is not set and the source wallet holds no
  output; the failure is the empty-candidates check. Whatever the build returns, it leaves
  the wallets and the store as they were.
\<close>

theorem C6_empty_candidates:
  "((\<exists>e. fst (Build te b w) = Inl e \<and> category e = InsufficientFunds) =
      (0 < amount b \<and> (\<exists>f t. fromWallet b = Some f \<and> toWallet b = Some t \<and>
         outputToUse b = None \<and> \<not> fakeInputs b \<and> WalletOutputs (wallets w f) = []))) \<and>
   (\<forall>e. fst (Build te b w) = Inl e \<and> category e = InsufficientFunds \<longrightarrow> e = NoOutputsToConsume) \<and>
   snd (Build te b w) = w"
  by (simp add: category_InsufficientFunds Build_no_candidates no_candidates_iff Build_world)

text \<open>Sending 60 from an empty wallet 0 fails with the empty-candidates failure and
  leaves the state as it was.\<close>

theorem C6_empty_candidates_witness:
  "Build simpleCollaborators (exampleBuilder 60) (exampleWorld []) =
     (Inl NoOutputsToConsume, exampleWorld [])"
proof -
  let ?b = "exampleBuilder 60" and ?w = "exampleWorld []"
  have b: "0 < amount ?b" "fromWallet ?b = Some 0" "toWallet ?b = Some 1"
    "outputToUse ?b = None" "\<not> fakeInputs ?b"
    by (simp_all add: example_defs)
  have w: "WalletOutputs (wallets ?w 0) = []"
    by (simp add: exampleWorld_def)
  from C6_empty_candidates [where te = simpleCollaborators and b = ?b and w = ?w] b w
  have "fst (Build simpleCollaborators ?b ?w) = Inl NoOutputsToConsume"
    and "snd (Build simpleCollaborators ?b ?w) = ?w"
    by auto
  then show ?thesis by (simp add: prod_eq_iff)
qed

subsection \<open>C7: the preconditions of a build\<close>

text \<open>
  C7, as stated, fails. With an empty tag and an empty source wallet the build fails on
  the candidate check, which comes before the tag check, and that failure is of the
  insufficient-funds class. With the source wallet unset no \<^verbatim>\<open>require\<close> fails: the build
  ends in the nil-pointer panic of the call on the wallet.
\<close>

theorem C7_counterexample:
  "indexation (Amount 60 (ToWallet (Some 1) (FromWallet (Some 0)
      (Parents (Some [Some [5]]) (NewMessageBuilder ''''))))) = [] \<and>
   fst (Build simpleCollaborators
      (Amount 60 (ToWallet (Some 1) (FromWallet (Some 0)
         (Parents (Some [Some [5]]) (NewMessageBuilder '''')))))
      (exampleWorld [])) = Inl NoOutputsToConsume \<and>
   category NoOutputsToConsume \<noteq> PreconditionViolation \<and>
   fromWallet (FromWallet None (exampleBuilder 60)) = None \<and>
   fst (Build simpleCollaborators (FromWallet None (exampleBuilder 60))
      (exampleWorld [fundedOutput 1 100])) = Inl NilPointerDereference \<and>
   category NilPointerDereference \<noteq> PreconditionViolation"
  by (simp add: example_defs)

text \<open>
  C7, amended. The checks of a build run in this order: amount, wallets (read, not
  checked), candidates, tag, transaction assembly, parents; the first that fails is the
  one reported, and every failure leaves the state as it was. So a build fails with the
  amount precondition exactly when the amount is zero. It fails with the tag precondition
  exactly when the tag is empty, the amount is positive, both wallets are set and there is
  a candidate output. It fails with the parents precondition exactly when the parents are
  unset, the amount is positive, both wallets are set, there is a candidate output, the
  tag is not empty and the transaction assembly succeeds. With an empty tag or unset
  parents the build always fails, but with the failure of the earlier step when there is
  one: the empty-candidates failure when there is no candidate, whatever the tag, and the
  failure of the transaction assembly, whatever the parents. An unset wallet is not
  checked: with a positive amount the build ends in the nil-pointer panic. The failures of
  the precondition class are these three and no other.
\<close>

theorem C7_preconditions:
  "(amount b = 0 \<longrightarrow> Build te b w = (Inl AmountNotPositive, w)) \<and>
   (indexation b = [] \<or> parents b = None \<longrightarrow> isl (fst (Build te b w))) \<and>
   (0 < amount b \<and> fromWallet b = Some f \<and> toWallet b = Some t \<and>
    outputsThatCanBeConsumed b (wallets w f) \<noteq> [] \<and> indexation b = [] \<longrightarrow>
      Build te b w = (Inl IndexationEmpty, w)) \<and>
   (0 < amount b \<and> fromWallet b = Some f \<and> toWallet b = Some t \<and>
    outputsThatCanBeConsumed b (wallets w f) \<noteq> [] \<and> indexation b \<noteq> [] \<and>
    TxBuild te (transactionRequest b (WalletAddress (wallets w f)) (WalletAddress (wallets w t))
        (outputsThatCanBeConsumed b (wallets w f)))
      \<lparr>KeysAddress = WalletAddress (wallets w f), Keys = WalletKeyPair (wallets w f)\<rparr> \<noteq> None \<and>
    parents b = None \<longrightarrow>
      Build te b w = (Inl ParentsNil, w)) \<and>
   (0 < amount b \<and> (fromWallet b = None \<or> toWallet b = None) \<longrightarrow>
      Build te b w = (Inl NilPointerDereference, w)) \<and>
   category AmountNotPositive = PreconditionViolation \<and>
   category IndexationEmpty = PreconditionViolation \<and>
   category ParentsNil = PreconditionViolation \<and>
   category NilPointerDereference \<noteq> PreconditionViolation \<and>
   snd (Build te b w) = w \<and>
   ((fst (Build te b w) = Inl AmountNotPositive) = (amount b = 0)) \<and>
   ((fst (Build te b w) = Inl IndexationEmpty) =
      (0 < amount b \<and> indexation b = [] \<and>
       (\<exists>f t. fromWallet b = Some f \<and> toWallet b = Some t \<and>
          outputsThatCanBeConsumed b (wallets w f) \<noteq> []))) \<and>
   ((fst (Build te b w) = Inl ParentsNil) =
      (0 < amount b \<and> indexation b \<noteq> [] \<and> parents b = None \<and>
       (\<exists>f t. fromWallet b = Some f \<and> toWallet b = Some t \<and>
          outputsThatCanBeConsumed b (wallets w f) \<noteq> [] \<and>
          TxBuild te (transactionRequest b (WalletAddress (wallets w f))
              (WalletAddress (wallets w t)) (outputsThatCanBeConsumed b (wallets w f)))
            \<lparr>KeysAddress = WalletAddress (wallets w f), Keys = WalletKeyPair (wallets w f)\<rparr> \<noteq> None))) \<and>
   (0 < amount b \<and> fromWallet b = Some f \<and> toWallet b = Some t \<and>
    outputsThatCanBeConsumed b (wallets w f) = [] \<longrightarrow>
      Build te b w = (Inl NoOutputsToConsume, w)) \<and>
   (0 < amount b \<and> fromWallet b = Some f \<and> toWallet b = Some t \<and>
    outputsThatCanBeConsumed b (wallets w f) \<noteq> [] \<and> indexation b \<noteq> [] \<and>
    TxBuild te (transactionRequest b (WalletAddress (wallets w f)) (WalletAddress (wallets w t))
        (outputsThatCanBeConsumed b (wallets w f)))
      \<lparr>KeysAddress = WalletAddress (wallets w f), Keys = WalletKeyPair (wallets w f)\<rparr> = None \<longrightarrow>
      Build te b w = (Inl TransactionBuildError, w)) \<and>
   ((\<exists>e. fst (Build te b w) = Inl e \<and> category e = PreconditionViolation) =
      (fst (Build te b w) = Inl AmountNotPositive \<or> fst (Build te b w) = Inl IndexationEmpty \<or>
       fst (Build te b w) = Inl ParentsNil))"
proof -
  have a: "amount b = 0 \<longrightarrow> Build te b w = (Inl AmountNotPositive, w)"
    by (simp add: Build_def)
  have m: "indexation b = [] \<or> parents b = None \<longrightarrow> isl (fst (Build te b w))"
    using Build_tag_or_parents_missing by blast
  have i: "0 < amount b \<and> fromWallet b = Some f \<and> toWallet b = Some t \<and>
    outputsThatCanBeConsumed b (wallets w f) \<noteq> [] \<and> indexation b = [] \<longrightarrow>
      Build te b w = (Inl IndexationEmpty, w)"
    by (simp add: Build_def Let_def split: prod.splits)
  have p: "0 < amount b \<and> fromWallet b = Some f \<and> toWallet b = Some t \<and>
    outputsThatCanBeConsumed b (wallets w f) \<noteq> [] \<and> indexation b \<noteq> [] \<and>
    TxBuild te (transactionRequest b (WalletAddress (wallets w f)) (WalletAddress (wallets w t))
        (outputsThatCanBeConsumed b (wallets w f)))
      \<lparr>KeysAddress = WalletAddress (wallets w f), Keys = WalletKeyPair (wallets w f)\<rparr> \<noteq> None \<and>
    parents b = None \<longrightarrow>
      Build te b w = (Inl ParentsNil, w)"
    by (auto simp: Build_def Let_def transactionRequest_def split: prod.splits)
  have n: "0 < amount b \<and> (fromWallet b = None \<or> toWallet b = None) \<longrightarrow>
      Build te b w = (Inl NilPointerDereference, w)"
    by (auto simp: Build_def split: option.splits)
  have c: "0 < amount b \<and> fromWallet b = Some f \<and> toWallet b = Some t \<and>
    outputsThatCanBeConsumed b (wallets w f) = [] \<longrightarrow>
      Build te b w = (Inl NoOutputsToConsume, w)"
    by (simp add: Build_def Let_def)
  have x: "0 < amount b \<and> fromWallet b = Some f \<and> toWallet b = Some t \<and>
    outputsThatCanBeConsumed b (wallets w f) \<noteq> [] \<and> indexation b \<noteq> [] \<and>
    TxBuild te (transactionRequest b (WalletAddress (wallets w f)) (WalletAddress (wallets w t))
        (outputsThatCanBeConsumed b (wallets w f)))
      \<lparr>KeysAddress = WalletAddress (wallets w f), Keys = WalletKeyPair (wallets w f)\<rparr> = None \<longrightarrow>
      Build te b w = (Inl TransactionBuildError, w)"
    by (auto simp: Build_def Let_def transactionRequest_def split: prod.splits)
  have pre: "(\<exists>e. fst (Build te b w) = Inl e \<and> category e = PreconditionViolation) =
      (fst (Build te b w) = Inl AmountNotPositive \<or> fst (Build te b w) = Inl IndexationEmpty \<or>
       fst (Build te b w) = Inl ParentsNil)"
    using Build_not_ParentNil [of te b w] by (auto simp: category_Precondition)
  have iffs: "(fst (Build te b w) = Inl AmountNotPositive) = (amount b = 0)"
    "(fst (Build te b w) = Inl IndexationEmpty) =
      (0 < amount b \<and> indexation b = [] \<and>
       (\<exists>f t. fromWallet b = Some f \<and> toWallet b = Some t \<and>
          outputsThatCanBeConsumed b (wallets w f) \<noteq> []))"
    "(fst (Build te b w) = Inl ParentsNil) =
      (0 < amount b \<and> indexation b \<noteq> [] \<and> parents b = None \<and>
       (\<exists>f t. fromWallet b = Some f \<and> toWallet b = Some t \<and>
          outputsThatCanBeConsumed b (wallets w f) \<noteq> [] \<and>
          TxBuild te (transactionRequest b (WalletAddress (wallets w f))
              (WalletAddress (wallets w t)) (outputsThatCanBeConsumed b (wallets w f)))
            \<lparr>KeysAddress = WalletAddress (wallets w f), Keys = WalletKeyPair (wallets w f)\<rparr> \<noteq> None))"
    by (rule Build_amount_iff, rule Build_tag_iff, rule Build_parents_iff)
  have cats: "category AmountNotPositive = PreconditionViolation"
    "category IndexationEmpty = PreconditionViolation"
    "category ParentsNil = PreconditionViolation"
    "category NilPointerDereference \<noteq> PreconditionViolation"
    by simp_all
  have world: "snd (Build te b w) = w"
    by (rule Build_world)
  from a m i p n cats world iffs c x pre show ?thesis
    by (intro conjI)
qed

text \<open>A zero amount, an empty tag with a funded wallet, and unset parents with a funded
  wallet each end in their precondition failure; with a transaction assembly that fails,
  unset parents end in the failure of the assembly.\<close>

theorem C7_preconditions_witness:
  "Build simpleCollaborators (exampleBuilder 0) (exampleWorld [fundedOutput 1 100]) =
     (Inl AmountNotPositive, exampleWorld [fundedOutput 1 100]) \<and>
   Build simpleCollaborators
     (Amount 60 (ToWallet (Some 1) (FromWallet (Some 0)
        (Parents (Some [Some [5]]) (NewMessageBuilder '''')))))
     (exampleWorld [fundedOutput 1 100]) =
     (Inl IndexationEmpty, exampleWorld [fundedOutput 1 100]) \<and>
   Build simpleCollaborators (Parents None (exampleBuilder 60)) (exampleWorld [fundedOutput 1 100]) =
     (Inl ParentsNil, exampleWorld [fundedOutput 1 100]) \<and>
   Build rejectingCollaborators (Parents None (exampleBuilder 60)) (exampleWorld [fundedOutput 1 100]) =
     (Inl TransactionBuildError, exampleWorld [fundedOutput 1 100])"
proof -
  let ?w = "exampleWorld [fundedOutput 1 100]"
  let ?b1 = "exampleBuilder 0"
  let ?b2 = "Amount 60 (ToWallet (Some 1) (FromWallet (Some 0)
        (Parents (Some [Some [5]]) (NewMessageBuilder ''''))))"
  let ?b3 = "Parents None (exampleBuilder 60)"
  have h1: "amount ?b1 = 0"
    by (simp add: example_defs)
  have h2: "0 < amount ?b2 \<and> fromWallet ?b2 = Some 0 \<and> toWallet ?b2 = Some 1 \<and>
      outputsThatCanBeConsumed ?b2 (wallets ?w 0) \<noteq> [] \<and> indexation ?b2 = []"
    by (simp add: example_defs)
  have h3: "0 < amount ?b3 \<and> fromWallet ?b3 = Some 0 \<and> toWallet ?b3 = Some 1 \<and>
      outputsThatCanBeConsumed ?b3 (wallets ?w 0) \<noteq> [] \<and> indexation ?b3 \<noteq> [] \<and>
      TxBuild simpleCollaborators
        (transactionRequest ?b3 (WalletAddress (wallets ?w 0)) (WalletAddress (wallets ?w 1))
           (outputsThatCanBeConsumed ?b3 (wallets ?w 0)))
        \<lparr>KeysAddress = WalletAddress (wallets ?w 0), Keys = WalletKeyPair (wallets ?w 0)\<rparr> \<noteq> None \<and>
      parents ?b3 = None"
    by (simp add: example_defs)
  have h4: "0 < amount ?b3 \<and> fromWallet ?b3 = Some 0 \<and> toWallet ?b3 = Some 1 \<and>
      outputsThatCanBeConsumed ?b3 (wallets ?w 0) \<noteq> [] \<and> indexation ?b3 \<noteq> [] \<and>
      TxBuild rejectingCollaborators
        (transactionRequest ?b3 (WalletAddress (wallets ?w 0)) (WalletAddress (wallets ?w 1))
           (outputsThatCanBeConsumed ?b3 (wallets ?w 0)))
        \<lparr>KeysAddress = WalletAddress (wallets ?w 0), Keys = WalletKeyPair (wallets ?w 0)\<rparr> = None"
    by (simp add: example_defs)
  from C7_preconditions [where b = ?b1 and te = simpleCollaborators and w = ?w, THEN conjunct1] h1
  have r1: "Build simpleCollaborators ?b1 ?w = (Inl AmountNotPositive, ?w)"
    by (rule mp)
  from C7_preconditions [where b = ?b2 and te = simpleCollaborators and w = ?w and f = 0 and t = 1,
      THEN conjunct2, THEN conjunct2, THEN conjunct1] h2
  have r2: "Build simpleCollaborators ?b2 ?w = (Inl IndexationEmpty, ?w)"
    by (rule mp)
  from C7_preconditions [where b = ?b3 and te = simpleCollaborators and w = ?w and f = 0 and t = 1,
      THEN conjunct2, THEN conjunct2, THEN conjunct2, THEN conjunct1] h3
  have r3: "Build simpleCollaborators ?b3 ?w = (Inl ParentsNil, ?w)"
    by (rule mp)
  from C7_preconditions [where b = ?b3 and te = rejectingCollaborators and w = ?w and f = 0 and t = 1,
      THEN conjunct2, THEN conjunct2, THEN conjunct2, THEN conjunct2, THEN conjunct2, THEN conjunct2, THEN conjunct2,
      THEN conjunct2, THEN conjunct2, THEN conjunct2, THEN conjunct2, THEN conjunct2, THEN conjunct2, THEN conjunct2, THEN conjunct1] h4
  have r4: "Build rejectingCollaborators ?b3 ?w = (Inl TransactionBuildError, ?w)"
    by (rule mp)
  from r1 r2 r3 r4 show ?thesis by simp
qed

subsection \<open>C9: the tag-only build\<close>



end
